theory Spec2Isabelle
  imports Main "HOL-Library.Char_ord" "HOL-Library.AList"
begin

section \<open>Strings\<close>

text \<open>
  Go strings are byte sequences; they are modelled as \<^typ>\<open>string\<close>. The case
  conversions of the \<^verbatim>\<open>strings\<close> package are modelled on ASCII text, where they act
  on the letters \<^verbatim>\<open>a-z\<close> and \<^verbatim>\<open>A-Z\<close> only, and on a string that is one byte
  outside ASCII, which is all that the engine passes to \<^verbatim>\<open>ToUpper\<close> besides ASCII.
\<close>

definition is_lower :: "char \<Rightarrow> bool" where
  "is_lower c = (CHR ''a'' \<le> c \<and> c \<le> CHR ''z'')"

definition is_upper :: "char \<Rightarrow> bool" where
  "is_upper c = (CHR ''A'' \<le> c \<and> c \<le> CHR ''Z'')"

text \<open>An ASCII letter changes case by its bit of weight 32.\<close>

definition to_lower :: "char \<Rightarrow> char" where
  "to_lower c =
     (if is_upper c
      then (case c of Char b0 b1 b2 b3 b4 b5 b6 b7 \<Rightarrow> Char b0 b1 b2 b3 b4 True b6 b7)
      else c)"

definition to_upper :: "char \<Rightarrow> char" where
  "to_upper c =
     (if is_lower c
      then (case c of Char b0 b1 b2 b3 b4 b5 b6 b7 \<Rightarrow> Char b0 b1 b2 b3 b4 False b6 b7)
      else c)"

definition ToLower :: "string \<Rightarrow> string" where
  "ToLower s = map to_lower s"

text \<open>
  \<^verbatim>\<open>strings.ToUpper\<close>. One byte outside ASCII is not valid UTF-8: it is replaced by
  the encoding of the replacement character U+FFFD.
\<close>

definition is_ascii :: "char \<Rightarrow> bool" where
  "is_ascii c = (c < CHR 0x80)"

definition ToUpper :: "string \<Rightarrow> string" where
  "ToUpper s =
     (case s of
        [c] \<Rightarrow> if is_ascii c then [to_upper c] else [CHR 0xEF, CHR 0xBF, CHR 0xBD]
      | _ \<Rightarrow> map to_upper s)"

text \<open>
  \<^verbatim>\<open>strings.Split(s, sep)\<close> for a one-byte separator: the pieces between the separators,
  always at least one piece (the empty string splits into one empty piece).
\<close>

fun Split :: "string \<Rightarrow> char \<Rightarrow> string list" where
  "Split [] sep = [[]]"
| "Split (x # xs) sep =
     (if x = sep then [] # Split xs sep
      else (case Split xs sep of [] \<Rightarrow> [[x]] | p # ps \<Rightarrow> (x # p) # ps))"

text \<open>
  \<^verbatim>\<open>strings.SplitN(s, sep, 2)\<close> for a one-byte separator: the whole string when the
  separator does not occur, otherwise the text before its first occurrence and everything
  after it.
\<close>

definition SplitN2 :: "string \<Rightarrow> char \<Rightarrow> string list" where
  "SplitN2 s sep =
     (if sep \<in> set s
      then [takeWhile (\<lambda>c. c \<noteq> sep) s, tl (dropWhile (\<lambda>c. c \<noteq> sep) s)]
      else [s])"

text \<open>
  \<^verbatim>\<open>caseRegexp.ReplaceAllString(s, "$1-$2")\<close> with
  \<^verbatim>\<open>caseRegexp = regexp.MustCompile("([a-z])([A-Z])")\<close>: the matches are taken from
  the left and do not overlap; each matched pair gets a hyphen in its middle.
\<close>

fun caseRegexp_ReplaceAll :: "string \<Rightarrow> string" where
  "caseRegexp_ReplaceAll (x # y # rest) =
     (if is_lower x \<and> is_upper y then x # CHR ''-'' # y # caseRegexp_ReplaceAll rest
      else x # caseRegexp_ReplaceAll (y # rest))"
| "caseRegexp_ReplaceAll s = s"

section \<open>The naming resolver\<close>

text \<open>
  \<^verbatim>\<open>func name(name, setName, short string) (string, string)\<close>. \<^verbatim>\<open>parts\<close> is never
  empty, so \<^verbatim>\<open>parts[i]\<close> and \<^verbatim>\<open>result[0]\<close> are in range.
\<close>

definition name :: "string \<Rightarrow> string \<Rightarrow> string \<Rightarrow> string \<times> string" where
  "name nm setName short =
     (if setName \<noteq> [] then (setName, short)
      else
        let parts = Split nm CHR ''_'';
            i = length parts - 1;
            nm1 = caseRegexp_ReplaceAll (parts ! i);
            nm2 = ToLower nm1;
            result = map ToLower (nm2 # take i parts);
            short1 = (if short = [] \<and> length result > 1 then result ! 1 else short)
        in (result ! 0, short1))"

section \<open>Values, flags and the invocation state\<close>

text \<open>
  A field of the target record is located by its path of field indices from the root
  record. A \<^verbatim>\<open>reflect.Value\<close> obtained from \<^verbatim>\<open>fields\<close> is such a locator.
\<close>

type_synonym loc = "nat list"

text \<open>
  The values the engine reads and writes. A Go slice or map may be \<^verbatim>\<open>nil\<close>
  (\<^const>\<open>None\<close>); an optional field is a pointer that is \<^verbatim>\<open>nil\<close> or refers to a value.
\<close>

datatype val =
    VInt int
  | VString string
  | VBool bool
  | VSlice "string list option"
  | VMap "(string \<rightharpoonup> string) option"
  | VOptInt "int option"
  | VOptString "string option"
  | VOptBool "bool option"

text \<open>
  The flag library (\<^verbatim>\<open>pflag\<close>, reached through \<^verbatim>\<open>cobra\<close>) is an external
  collaborator. It is modelled by the contract the engine relies on: a flag has a value type
  (\<^verbatim>\<open>Value.Type()\<close>), a default, a changed indicator, and storage that is either the
  flag's own (\<^verbatim>\<open>IntP\<close>, \<^verbatim>\<open>StringSliceP\<close>, ...) or a field of the target record
  (\<^verbatim>\<open>IntVarP\<close>, \<^verbatim>\<open>StringVarP\<close>, \<^verbatim>\<open>BoolVarP\<close>, which receive the field's address).
\<close>

datatype vtype = TyInt | TyString | TyBool | TyStringSlice | TyStringArray

datatype storage = Own val | Bound loc

datatype scope = Persistent | Local

record flag =
  Shorthand :: string
  Usage :: string
  ValueType :: vtype
  DefValue :: val
  Value :: storage
  Changed :: bool
  FlagScope :: scope

text \<open>
  A command has two flag sets that \<^verbatim>\<open>New\<close> registers on. The persistent set
  (\<^verbatim>\<open>c.PersistentFlags()\<close>) is merged by \<^verbatim>\<open>cobra\<close> into \<^verbatim>\<open>app.Flags()\<close> before
  the input is parsed and any hook runs; the two share their flag objects, so one table,
  \<open>flags\<close>, stands for both. The local set (\<^verbatim>\<open>c.LocalFlags()\<close>) is a derived set: each
  call of \<^verbatim>\<open>LocalFlags\<close> adds to it the persistent flags it does not yet hold, and a
  flag registered on it directly never reaches \<^verbatim>\<open>app.Flags()\<close>. An entry of the local
  set is such a flag of its own or a persistent flag shared with \<open>flags\<close>. Each set
  also keeps the names behind its one-byte shorthands, and the persistent set the order of
  registration.
\<close>

datatype lentry = LOwn flag | LShared

text \<open>
  What a hook sees when it runs: the command's flags (\<^verbatim>\<open>app.Flags()\<close>), the fields of
  the target record, and the process environment (\<^verbatim>\<open>os.Getenv\<close>, the empty string for
  an unset variable); with them, the rest of the two flag sets.
\<close>

record state =
  flags :: "string \<rightharpoonup> flag"
  store :: "loc \<Rightarrow> val"
  environ :: "string \<Rightarrow> string"
  pshort :: "char \<rightharpoonup> string"
  porder :: "string list"
  lflags :: "string \<rightharpoonup> lentry"
  lshort :: "char \<rightharpoonup> string"

datatype error =
    FlagNotDefined string
  | FlagTypeMismatch vtype vtype

text \<open>
  What a hook returns: \<^verbatim>\<open>nil\<close>, an error, or a panic (a \<^verbatim>\<open>nil\<close> flag dereferenced).
  The record is mutated in place, so the state reached is part of every result.
\<close>

datatype outcome = Nil_error | Error error | Panic

type_synonym hook = "state \<Rightarrow> outcome \<times> state"

definition flag_value :: "state \<Rightarrow> flag \<Rightarrow> val" where
  "flag_value st f = (case Value f of Own x \<Rightarrow> x | Bound l \<Rightarrow> store st l)"

text \<open>
  The getters of \<^verbatim>\<open>pflag\<close> (\<^verbatim>\<open>getFlagType\<close>): an error for a name that is not
  defined and for a flag of another value type, otherwise the flag's current value.
\<close>

definition GetString :: "state \<Rightarrow> string \<Rightarrow> error + string" where
  "GetString st k =
     (case flags st k of
        None \<Rightarrow> Inl (FlagNotDefined k)
      | Some f \<Rightarrow>
          (case (ValueType f, flag_value st f) of
             (TyString, VString s) \<Rightarrow> Inr s
           | _ \<Rightarrow> Inl (FlagTypeMismatch TyString (ValueType f))))"

definition GetInt :: "state \<Rightarrow> string \<Rightarrow> error + int" where
  "GetInt st k =
     (case flags st k of
        None \<Rightarrow> Inl (FlagNotDefined k)
      | Some f \<Rightarrow>
          (case (ValueType f, flag_value st f) of
             (TyInt, VInt i) \<Rightarrow> Inr i
           | _ \<Rightarrow> Inl (FlagTypeMismatch TyInt (ValueType f))))"

definition GetBool :: "state \<Rightarrow> string \<Rightarrow> error + bool" where
  "GetBool st k =
     (case flags st k of
        None \<Rightarrow> Inl (FlagNotDefined k)
      | Some f \<Rightarrow>
          (case (ValueType f, flag_value st f) of
             (TyBool, VBool b) \<Rightarrow> Inr b
           | _ \<Rightarrow> Inl (FlagTypeMismatch TyBool (ValueType f))))"

text \<open>
  \<^verbatim>\<open>GetStringSlice\<close> and \<^verbatim>\<open>GetStringArray\<close> do not hand out the slice the flag
  stores: they take the flag's textual form (\<^verbatim>\<open>Value.String()\<close>, \<^verbatim>\<open>"[]"\<close> for no
  tokens) and convert it back with \<^verbatim>\<open>stringSliceConv\<close> or \<^verbatim>\<open>stringArrayConv\<close>,
  which return \<^verbatim>\<open>[]string{}\<close> for the empty text. So a flag without tokens, \<^verbatim>\<open>nil\<close>
  as registered or emptied by the user, reads back as the empty sequence, which is not
  \<^verbatim>\<open>nil\<close>. The value stored in a sequence flag stands for the tokens its getter
  reports. The result is a Go slice, so the caller's \<^verbatim>\<open>nil\<close> test is kept in the
  model.
\<close>

definition tokens_of :: "string list option \<Rightarrow> string list" where
  "tokens_of s = (case s of None \<Rightarrow> [] | Some ts \<Rightarrow> ts)"

definition GetStringSlice :: "state \<Rightarrow> string \<Rightarrow> error + string list option" where
  "GetStringSlice st k =
     (case flags st k of
        None \<Rightarrow> Inl (FlagNotDefined k)
      | Some f \<Rightarrow>
          (case (ValueType f, flag_value st f) of
             (TyStringSlice, VSlice s) \<Rightarrow> Inr (Some (tokens_of s))
           | _ \<Rightarrow> Inl (FlagTypeMismatch TyStringSlice (ValueType f))))"

definition GetStringArray :: "state \<Rightarrow> string \<Rightarrow> error + string list option" where
  "GetStringArray st k =
     (case flags st k of
        None \<Rightarrow> Inl (FlagNotDefined k)
      | Some f \<Rightarrow>
          (case (ValueType f, flag_value st f) of
             (TyStringArray, VSlice s) \<Rightarrow> Inr (Some (tokens_of s))
           | _ \<Rightarrow> Inl (FlagTypeMismatch TyStringArray (ValueType f))))"

text \<open>\<^verbatim>\<open>v.Set(x)\<close> on a field of the record.\<close>

definition Set_field :: "loc \<Rightarrow> val \<Rightarrow> state \<Rightarrow> state" where
  "Set_field v x st = st\<lparr>store := (store st)(v := x)\<rparr>"

text \<open>
  The flag sets as the closures of \<^verbatim>\<open>New\<close> hold them: \<^verbatim>\<open>flags.Lookup\<close> and
  \<^verbatim>\<open>flags.GetString\<close> on the persistent or on the local set.
\<close>

definition Lookup :: "scope \<Rightarrow> state \<Rightarrow> string \<Rightarrow> flag option" where
  "Lookup sc st k =
     (case sc of
        Persistent \<Rightarrow> flags st k
      | Local \<Rightarrow>
          (case lflags st k of
             None \<Rightarrow> None
           | Some LShared \<Rightarrow> flags st k
           | Some (LOwn f) \<Rightarrow> Some f))"

definition FlagSet_GetString :: "scope \<Rightarrow> state \<Rightarrow> string \<Rightarrow> error + string" where
  "FlagSet_GetString sc st k =
     (case Lookup sc st k of
        None \<Rightarrow> Inl (FlagNotDefined k)
      | Some f \<Rightarrow>
          (case (ValueType f, flag_value st f) of
             (TyString, VString s) \<Rightarrow> Inr s
           | _ \<Rightarrow> Inl (FlagTypeMismatch TyString (ValueType f))))"

text \<open>A flag object is written back where the set found it.\<close>

definition put_flag :: "scope \<Rightarrow> string \<Rightarrow> flag \<Rightarrow> state \<Rightarrow> state" where
  "put_flag sc k f st =
     (case sc of
        Persistent \<Rightarrow> st\<lparr>flags := (flags st)(k \<mapsto> f)\<rparr>
      | Local \<Rightarrow>
          (case lflags st k of
             Some (LOwn _) \<Rightarrow> st\<lparr>lflags := (lflags st)(k \<mapsto> LOwn f)\<rparr>
           | _ \<Rightarrow> st\<lparr>flags := (flags st)(k \<mapsto> f)\<rparr>))"

text \<open>
  \<^verbatim>\<open>flags.Set(name, value)\<close> on a flag of type string: the value is stored where the
  flag keeps it and the flag is marked as changed. The environment overlay reaches it only
  after \<^verbatim>\<open>GetString\<close> has succeeded on the same name; on any other flag the model leaves
  the state alone, as the caller discards the error.
\<close>

definition FlagSet_Set :: "scope \<Rightarrow> string \<Rightarrow> string \<Rightarrow> state \<Rightarrow> state" where
  "FlagSet_Set sc k x st =
     (case Lookup sc st k of
        None \<Rightarrow> st
      | Some f \<Rightarrow>
          if ValueType f \<noteq> TyString then st
          else (case Value f of
                  Own _ \<Rightarrow> put_flag sc k (f\<lparr>Value := Own (VString x), Changed := True\<rparr>) st
                | Bound l \<Rightarrow>
                    put_flag sc k (f\<lparr>Changed := True\<rparr>)
                      (st\<lparr>store := (store st)(l := VString x)\<rparr>)))"

section \<open>The write-back steps\<close>

text \<open>\<^verbatim>\<open>func contextKey(name string) string\<close>: the text after the last comma.\<close>

definition contextKey :: "string \<Rightarrow> string" where
  "contextKey nm = (let parts = Split nm CHR '','' in parts ! (length parts - 1))"

text \<open>
  A \<^verbatim>\<open>map[string]reflect.Value\<close> is a list of entries in the order in which the
  \<^verbatim>\<open>range\<close> loop visits them. Go leaves that order open, so every property below is
  proved for any list.
\<close>

type_synonym fieldmap = "(string \<times> loc) list"

fun assignOptBool :: "fieldmap \<Rightarrow> hook" where
  "assignOptBool [] st = (Nil_error, st)"
| "assignOptBool ((k0, v) # rest) st =
     (let k = contextKey k0 in
      case flags st k of
        None \<Rightarrow> (Panic, st)
      | Some a \<Rightarrow>
          if \<not> Changed a then assignOptBool rest st
          else (case GetBool st k of
                  Inl err \<Rightarrow> (Error err, st)
                | Inr i \<Rightarrow> assignOptBool rest (Set_field v (VOptBool (Some i)) st)))"

fun assignOptString :: "fieldmap \<Rightarrow> hook" where
  "assignOptString [] st = (Nil_error, st)"
| "assignOptString ((k0, v) # rest) st =
     (let k = contextKey k0 in
      case flags st k of
        None \<Rightarrow> (Panic, st)
      | Some a \<Rightarrow>
          if \<not> Changed a then assignOptString rest st
          else (case GetString st k of
                  Inl err \<Rightarrow> (Error err, st)
                | Inr i \<Rightarrow> assignOptString rest (Set_field v (VOptString (Some i)) st)))"

fun assignOptInt :: "fieldmap \<Rightarrow> hook" where
  "assignOptInt [] st = (Nil_error, st)"
| "assignOptInt ((k0, v) # rest) st =
     (let k = contextKey k0 in
      case flags st k of
        None \<Rightarrow> (Panic, st)
      | Some a \<Rightarrow>
          if \<not> Changed a then assignOptInt rest st
          else (case GetInt st k of
                  Inl err \<Rightarrow> (Error err, st)
                | Inr i \<Rightarrow> assignOptInt rest (Set_field v (VOptInt (Some i)) st)))"

text \<open>The inner loop of \<^verbatim>\<open>assignMaps\<close> over the tokens, filling \<^verbatim>\<open>values\<close>.\<close>

fun assignMaps_values :: "string list \<Rightarrow> (string \<rightharpoonup> string) \<Rightarrow> (string \<rightharpoonup> string)" where
  "assignMaps_values [] values = values"
| "assignMaps_values (part # s) values =
     (let parts = SplitN2 part CHR ''='' in
      if length parts = 1 then assignMaps_values s (values(parts ! 0 \<mapsto> []))
      else assignMaps_values s (values(parts ! 0 \<mapsto> parts ! 1)))"

fun assignMaps :: "fieldmap \<Rightarrow> hook" where
  "assignMaps [] st = (Nil_error, st)"
| "assignMaps ((k0, v) # rest) st =
     (let k = contextKey k0 in
      case GetStringSlice st k of
        Inl err \<Rightarrow> (Error err, st)
      | Inr None \<Rightarrow> assignMaps rest st
      | Inr (Some s) \<Rightarrow>
          assignMaps rest (Set_field v (VMap (Some (assignMaps_values s Map.empty))) st))"

fun assignSlices :: "fieldmap \<Rightarrow> hook" where
  "assignSlices [] st = (Nil_error, st)"
| "assignSlices ((k0, v) # rest) st =
     (let k = contextKey k0 in
      case GetStringSlice st k of
        Inl err \<Rightarrow> (Error err, st)
      | Inr s0 \<Rightarrow>
          (case flags st k of
             None \<Rightarrow> (Panic, st)
           | Some a \<Rightarrow>
               let s = (if Changed a \<and> length (tokens_of s0) = 0 then Some [[]] else s0) in
               (case s of
                  None \<Rightarrow> assignSlices rest st
                | Some ts \<Rightarrow> assignSlices rest (Set_field v (VSlice (Some ts)) st))))"

fun assignArrays :: "fieldmap \<Rightarrow> hook" where
  "assignArrays [] st = (Nil_error, st)"
| "assignArrays ((k0, v) # rest) st =
     (let k = contextKey k0 in
      case GetStringArray st k of
        Inl err \<Rightarrow> (Error err, st)
      | Inr s0 \<Rightarrow>
          (case flags st k of
             None \<Rightarrow> (Panic, st)
           | Some a \<Rightarrow>
               let s = (if Changed a \<and> length (tokens_of s0) = 0 then Some [[]] else s0) in
               (case s of
                  None \<Rightarrow> assignArrays rest st
                | Some ts \<Rightarrow> assignArrays rest (Set_field v (VSlice (Some ts)) st))))"

section \<open>Well-registered flags and the frame of a step\<close>

text \<open>
  The flags behind the write-back maps are the ones \<^verbatim>\<open>New\<close> registers with storage of
  their own: \<^verbatim>\<open>IntP\<close>, \<^verbatim>\<open>StringP\<close>, \<^verbatim>\<open>BoolP\<close>, \<^verbatim>\<open>StringSliceP\<close> and
  \<^verbatim>\<open>StringArrayP\<close>. \<open>registered ty fl k\<close> says that the table \<open>fl\<close> holds such a flag
  of value type \<open>ty\<close> under the name \<open>k\<close>.
\<close>

fun own_shape :: "vtype \<Rightarrow> storage \<Rightarrow> bool" where
  "own_shape TyInt (Own (VInt _)) = True"
| "own_shape TyString (Own (VString _)) = True"
| "own_shape TyBool (Own (VBool _)) = True"
| "own_shape TyStringSlice (Own (VSlice _)) = True"
| "own_shape TyStringArray (Own (VSlice _)) = True"
| "own_shape _ _ = False"

definition registered :: "vtype \<Rightarrow> (string \<rightharpoonup> flag) \<Rightarrow> string \<Rightarrow> bool" where
  "registered ty fl k =
     (case fl k of None \<Rightarrow> False | Some a \<Rightarrow> ValueType a = ty \<and> own_shape ty (Value a))"

text \<open>
  \<open>frame m st st'\<close>: from \<open>st\<close> to \<open>st'\<close> the flags and the environment are the same,
  and so is every field that is not a target of the map \<open>m\<close>.
\<close>

definition frame :: "fieldmap \<Rightarrow> state \<Rightarrow> state \<Rightarrow> bool" where
  "frame m st st' =
     (flags st' = flags st \<and> environ st' = environ st \<and>
      (\<forall>l. l \<notin> snd ` set m \<longrightarrow> store st' l = store st l))"

section \<open>The environment overlay and the hook chain\<close>

text \<open>
  The closure that \<^verbatim>\<open>New\<close> appends to \<^verbatim>\<open>envs\<close>, applied to what it captures: the
  flag set, the variable \<^verbatim>\<open>env\<close>, the flag name and the default literal.
\<close>

definition envCallback :: "scope \<Rightarrow> string \<Rightarrow> string \<Rightarrow> string \<Rightarrow> state \<Rightarrow> state" where
  "envCallback sc env nm defValue st =
     (let v = environ st env in
      if v \<noteq> [] then
        (case FlagSet_GetString sc st nm of
           Inr fv \<Rightarrow> if fv = [] \<or> fv = defValue then FlagSet_Set sc nm v st else st
         | Inl err \<Rightarrow> st)
      else st)"

text \<open>\<^verbatim>\<open>for _, envCallback := range envs { envCallback() }\<close>\<close>

fun run_envs :: "(state \<Rightarrow> state) list \<Rightarrow> state \<Rightarrow> state" where
  "run_envs [] st = st"
| "run_envs (cb # rest) st = run_envs rest (cb st)"

text \<open>
  \<^verbatim>\<open>func bind(next, arrays, slices, maps, optInt, optBool, optString, envs)\<close>: no hook for
  no \<^verbatim>\<open>next\<close>, otherwise the closure that runs the overlay, the six steps and \<^verbatim>\<open>next\<close>.
\<close>

definition bind ::
  "hook option \<Rightarrow> fieldmap \<Rightarrow> fieldmap \<Rightarrow> fieldmap \<Rightarrow> fieldmap \<Rightarrow> fieldmap \<Rightarrow> fieldmap \<Rightarrow>
   (state \<Rightarrow> state) list \<Rightarrow> hook option" where
  "bind next arrays slices maps optInt optBool optString envs =
     (case next of
        None \<Rightarrow> None
      | Some nxt \<Rightarrow> Some (\<lambda>st.
          let st0 = run_envs envs st in
          case assignArrays arrays st0 of
            (Nil_error, st1) \<Rightarrow>
              (case assignSlices slices st1 of
                 (Nil_error, st2) \<Rightarrow>
                   (case assignMaps maps st2 of
                      (Nil_error, st3) \<Rightarrow>
                        (case assignOptInt optInt st3 of
                           (Nil_error, st4) \<Rightarrow>
                             (case assignOptBool optBool st4 of
                                (Nil_error, st5) \<Rightarrow>
                                  (case assignOptString optString st5 of
                                     (Nil_error, st6) \<Rightarrow> nxt st6
                                   | (err, st6) \<Rightarrow> (err, st6))
                              | (err, st5) \<Rightarrow> (err, st5))
                         | (err, st4) \<Rightarrow> (err, st4))
                    | (err, st3) \<Rightarrow> (err, st3))
               | (err, st2) \<Rightarrow> (err, st2))
          | (err, st1) \<Rightarrow> (err, st1)))"

section \<open>Record types and the field descriptor extractor\<close>

text \<open>
  The type of a field as \<^verbatim>\<open>reflect\<close> shows it. \<open>TOther\<close> stands for every kind the
  engine does not name (floats, unsigned and sized integers, interfaces, channels, ...).
  A struct field (\<^verbatim>\<open>reflect.StructField\<close>) has a name, the \<^verbatim>\<open>Anonymous\<close> mark of an
  embedded field, a type, a tag, the tag being its key/value pairs, and a package path,
  which is empty exactly for an exported field.
\<close>

datatype gtype =
    TInt | TInt64 | TString | TBool
  | TSlice gtype
  | TMap gtype gtype
  | TPointer gtype
  | TStruct "sfield list"
  | TOther string
and sfield =
    SField (Name: string) (Anonymous: bool) (Type: gtype) (Tag: "(string \<times> string) list")
           (PkgPath: string)

text \<open>\<^verbatim>\<open>fieldType.Tag.Get(key)\<close>: the value of the key, the empty string without it.\<close>

definition Tag_Get :: "(string \<times> string) list \<Rightarrow> string \<Rightarrow> string" where
  "Tag_Get tag key = (case map_of tag key of None \<Rightarrow> [] | Some x \<Rightarrow> x)"

record fieldInfo =
  FieldType :: sfield
  FieldValue :: loc

text \<open>
  The variables of \<^verbatim>\<open>New\<close> that its loop over the fields updates: the command with its
  flags and the record behind it, the overlay closures and the six write-back maps.
  \<^verbatim>\<open>m[name] = v\<close> on a Go map replaces the entry of an existing key.
\<close>

record build =
  cmd :: state
  envs :: "(state \<Rightarrow> state) list"
  arrays :: fieldmap
  slices :: fieldmap
  maps :: fieldmap
  optString :: fieldmap
  optBool :: fieldmap
  optInt :: fieldmap

text \<open>
  The hooks of the command \<^verbatim>\<open>New\<close> returns. The context set up by
  \<^verbatim>\<open>PersistentPreRunE\<close> is outside the binding engine, so that hook is the object's
  \<^verbatim>\<open>PersistentPre\<close> or, without one, returns \<^verbatim>\<open>nil\<close>.
\<close>

record command =
  PersistentPreRunE :: "hook option"
  PreRunE :: "hook option"
  RunE :: "hook option"

text \<open>
  \<^verbatim>\<open>func fields(obj any) []fieldInfo\<close>, on the field list of the struct that \<^verbatim>\<open>obj\<close>
  points to. \<open>p\<close> is the path of that struct in the root record and \<open>i\<close> the loop
  counter: an embedded struct is entered, a named field is taken, any other embedded field
  is passed over. To enter an embedded struct the code takes
  \<^verbatim>\<open>objValue.Field(i).Addr().Interface()\<close>, and \<^verbatim>\<open>Interface\<close> panics on a value
  obtained through an unexported field: \<^const>\<open>None\<close> is that panic.
\<close>

fun fields :: "loc \<Rightarrow> nat \<Rightarrow> sfield list \<Rightarrow> fieldInfo list option" where
  "fields p i [] = Some []"
| "fields p i (SField n True (TStruct fs) tg pk # rest) =
     (if pk \<noteq> [] then None
      else (case fields (p @ [i]) 0 fs of
              None \<Rightarrow> None
            | Some inner \<Rightarrow>
                (case fields p (Suc i) rest of
                   None \<Rightarrow> None
                 | Some others \<Rightarrow> Some (inner @ others))))"
| "fields p i (SField n False t tg pk # rest) =
     (case fields p (Suc i) rest of
        None \<Rightarrow> None
      | Some others \<Rightarrow>
          Some (\<lparr>FieldType = SField n False t tg pk, FieldValue = p @ [i]\<rparr> # others))"
| "fields p i (SField n True t tg pk # rest) = fields p (Suc i) rest"

section \<open>The flag registrar\<close>

text \<open>
  \<^verbatim>\<open>strconv.Atoi\<close> with a 64-bit \<^verbatim>\<open>int\<close>: an optional sign and at least one decimal
  digit, an error for anything else and for a value out of range.
\<close>

definition is_digit :: "char \<Rightarrow> bool" where
  "is_digit c = (CHR ''0'' \<le> c \<and> c \<le> CHR ''9'')"

definition digit_val :: "char \<Rightarrow> int" where
  "digit_val c = of_char c - 48"

definition Atoi :: "string \<Rightarrow> int option" where
  "Atoi s =
     (let neg = (s \<noteq> [] \<and> hd s = CHR ''-'');
          ds = (if s \<noteq> [] \<and> (hd s = CHR ''-'' \<or> hd s = CHR ''+'') then tl s else s)
      in if ds = [] \<or> \<not> list_all is_digit ds then None
         else
           let n = foldl (\<lambda>a c. a * 10 + digit_val c) 0 ds;
               n1 = (if neg then - n else n)
           in if - (2 ^ 63) \<le> n1 \<and> n1 < 2 ^ 63 then Some n1 else None)"

text \<open>
  \<^verbatim>\<open>func (f *FlagSet) AddFlag(flag *Flag)\<close> of \<^verbatim>\<open>pflag\<close>, through which every
  registration goes: it panics (\<^const>\<open>None\<close>) on a name the set already holds, on a
  shorthand of more than one byte and on a shorthand the set already uses.
\<close>

definition AddFlag :: "scope \<Rightarrow> string \<Rightarrow> flag \<Rightarrow> state \<Rightarrow> state option" where
  "AddFlag sc nm f st =
     (case sc of
        Persistent \<Rightarrow>
          if flags st nm \<noteq> None then None
          else
            let st1 = st\<lparr>flags := (flags st)(nm \<mapsto> f), porder := porder st @ [nm]\<rparr> in
            (case Shorthand f of
               [] \<Rightarrow> Some st1
             | c # cs \<Rightarrow>
                 if cs \<noteq> [] then None
                 else if pshort st c \<noteq> None then None
                 else Some (st1\<lparr>pshort := (pshort st)(c \<mapsto> nm)\<rparr>))
      | Local \<Rightarrow>
          if lflags st nm \<noteq> None then None
          else
            let st1 = st\<lparr>lflags := (lflags st)(nm \<mapsto> LOwn f)\<rparr> in
            (case Shorthand f of
               [] \<Rightarrow> Some st1
             | c # cs \<Rightarrow>
                 if cs \<noteq> [] then None
                 else if lshort st c \<noteq> None then None
                 else Some (st1\<lparr>lshort := (lshort st)(c \<mapsto> nm)\<rparr>)))"

text \<open>
  \<^verbatim>\<open>c.LocalFlags()\<close> of \<^verbatim>\<open>cobra\<close>: every persistent flag whose name the local set
  does not hold is added to it with \<^verbatim>\<open>AddFlag\<close>, which panics when the flag's shorthand
  is taken there. The flags are visited in the order of their registration; the library
  visits them sorted by name, and the outcome does not depend on the order, since the
  shorthands of the persistent flags differ from each other.
\<close>

fun LocalFlags_add :: "string list \<Rightarrow> state \<Rightarrow> state option" where
  "LocalFlags_add [] st = Some st"
| "LocalFlags_add (n # ns) st =
     (case flags st n of
        None \<Rightarrow> LocalFlags_add ns st
      | Some f \<Rightarrow>
          if lflags st n \<noteq> None then LocalFlags_add ns st
          else
            let st1 = st\<lparr>lflags := (lflags st)(n \<mapsto> LShared)\<rparr> in
            (case Shorthand f of
               [] \<Rightarrow> LocalFlags_add ns st1
             | c # cs \<Rightarrow>
                 if cs \<noteq> [] then None
                 else if lshort st c \<noteq> None then None
                 else LocalFlags_add ns (st1\<lparr>lshort := (lshort st)(c \<mapsto> n)\<rparr>)))"

definition LocalFlags :: "state \<Rightarrow> state option" where
  "LocalFlags st = LocalFlags_add (porder st) st"

text \<open>
  The registration calls of \<^verbatim>\<open>pflag\<close> on the set \<open>sc\<close>. The \<^verbatim>\<open>Var\<close> forms bind
  the flag to the field whose address they receive and store the default there before
  they add the flag; the others give the flag storage of its own.
\<close>

definition IntVarP ::
  "scope \<Rightarrow> loc \<Rightarrow> string \<Rightarrow> string \<Rightarrow> int \<Rightarrow> string \<Rightarrow> state \<Rightarrow> state option" where
  "IntVarP sc p nm shorthand x usage st =
     AddFlag sc nm
       \<lparr>Shorthand = shorthand, Usage = usage, ValueType = TyInt, DefValue = VInt x,
        Value = Bound p, Changed = False, FlagScope = sc\<rparr>
       (st\<lparr>store := (store st)(p := VInt x)\<rparr>)"

definition StringVarP ::
  "scope \<Rightarrow> loc \<Rightarrow> string \<Rightarrow> string \<Rightarrow> string \<Rightarrow> string \<Rightarrow> state \<Rightarrow> state option" where
  "StringVarP sc p nm shorthand x usage st =
     AddFlag sc nm
       \<lparr>Shorthand = shorthand, Usage = usage, ValueType = TyString, DefValue = VString x,
        Value = Bound p, Changed = False, FlagScope = sc\<rparr>
       (st\<lparr>store := (store st)(p := VString x)\<rparr>)"

definition BoolVarP ::
  "scope \<Rightarrow> loc \<Rightarrow> string \<Rightarrow> string \<Rightarrow> bool \<Rightarrow> string \<Rightarrow> state \<Rightarrow> state option" where
  "BoolVarP sc p nm shorthand x usage st =
     AddFlag sc nm
       \<lparr>Shorthand = shorthand, Usage = usage, ValueType = TyBool, DefValue = VBool x,
        Value = Bound p, Changed = False, FlagScope = sc\<rparr>
       (st\<lparr>store := (store st)(p := VBool x)\<rparr>)"

definition IntP ::
  "scope \<Rightarrow> string \<Rightarrow> string \<Rightarrow> int \<Rightarrow> string \<Rightarrow> state \<Rightarrow> state option" where
  "IntP sc nm shorthand x usage st =
     AddFlag sc nm
       \<lparr>Shorthand = shorthand, Usage = usage, ValueType = TyInt, DefValue = VInt x,
        Value = Own (VInt x), Changed = False, FlagScope = sc\<rparr>
       st"

definition StringP ::
  "scope \<Rightarrow> string \<Rightarrow> string \<Rightarrow> string \<Rightarrow> string \<Rightarrow> state \<Rightarrow> state option" where
  "StringP sc nm shorthand x usage st =
     AddFlag sc nm
       \<lparr>Shorthand = shorthand, Usage = usage, ValueType = TyString, DefValue = VString x,
        Value = Own (VString x), Changed = False, FlagScope = sc\<rparr>
       st"

definition BoolP ::
  "scope \<Rightarrow> string \<Rightarrow> string \<Rightarrow> bool \<Rightarrow> string \<Rightarrow> state \<Rightarrow> state option" where
  "BoolP sc nm shorthand x usage st =
     AddFlag sc nm
       \<lparr>Shorthand = shorthand, Usage = usage, ValueType = TyBool, DefValue = VBool x,
        Value = Own (VBool x), Changed = False, FlagScope = sc\<rparr>
       st"

definition StringSliceP ::
  "scope \<Rightarrow> string \<Rightarrow> string \<Rightarrow> string list option \<Rightarrow> string \<Rightarrow> state \<Rightarrow> state option" where
  "StringSliceP sc nm shorthand x usage st =
     AddFlag sc nm
       \<lparr>Shorthand = shorthand, Usage = usage, ValueType = TyStringSlice, DefValue = VSlice x,
        Value = Own (VSlice x), Changed = False, FlagScope = sc\<rparr>
       st"

definition StringArrayP ::
  "scope \<Rightarrow> string \<Rightarrow> string \<Rightarrow> string list option \<Rightarrow> string \<Rightarrow> state \<Rightarrow> state option" where
  "StringArrayP sc nm shorthand x usage st =
     AddFlag sc nm
       \<lparr>Shorthand = shorthand, Usage = usage, ValueType = TyStringArray, DefValue = VSlice x,
        Value = Own (VSlice x), Changed = False, FlagScope = sc\<rparr>
       st"

text \<open>
  The \<^verbatim>\<open>switch fieldType.Type.Kind()\<close> of \<^verbatim>\<open>New\<close>; \<^const>\<open>None\<close> is a panic, of
  its \<^verbatim>\<open>default\<close> branch or of the registration. The inner switch on the element kind
  of a pointer has no \<^verbatim>\<open>default\<close> branch.
\<close>

definition register ::
  "sfield \<Rightarrow> loc \<Rightarrow> scope \<Rightarrow> string \<Rightarrow> string \<Rightarrow> string \<Rightarrow> int \<Rightarrow> string \<Rightarrow> build \<Rightarrow> build option" where
  "register fieldType v sc nm alias defValue defInt usage b =
     (case Type fieldType of
        TInt \<Rightarrow>
          map_option (\<lambda>c. b\<lparr>cmd := c\<rparr>) (IntVarP sc v nm alias defInt usage (cmd b))
      | TInt64 \<Rightarrow>
          map_option (\<lambda>c. b\<lparr>cmd := c\<rparr>) (IntVarP sc v nm alias defInt usage (cmd b))
      | TString \<Rightarrow>
          map_option (\<lambda>c. b\<lparr>cmd := c\<rparr>) (StringVarP sc v nm alias defValue usage (cmd b))
      | TSlice _ \<Rightarrow>
          (if Tag_Get (Tag fieldType) ''split'' = ''false''
           then map_option (\<lambda>c. b\<lparr>arrays := AList.update nm v (arrays b), cmd := c\<rparr>)
                  (StringArrayP sc nm alias None usage (cmd b))
           else map_option (\<lambda>c. b\<lparr>slices := AList.update nm v (slices b), cmd := c\<rparr>)
                  (StringSliceP sc nm alias None usage (cmd b)))
      | TMap _ _ \<Rightarrow>
          map_option (\<lambda>c. b\<lparr>maps := AList.update nm v (maps b), cmd := c\<rparr>)
            (StringSliceP sc nm alias None usage (cmd b))
      | TBool \<Rightarrow>
          map_option (\<lambda>c. b\<lparr>cmd := c\<rparr>) (BoolVarP sc v nm alias False usage (cmd b))
      | TPointer elem \<Rightarrow>
          (case elem of
             TInt \<Rightarrow>
               map_option (\<lambda>c. b\<lparr>optInt := AList.update nm v (optInt b), cmd := c\<rparr>)
                 (IntP sc nm alias defInt usage (cmd b))
           | TString \<Rightarrow>
               map_option (\<lambda>c. b\<lparr>optString := AList.update nm v (optString b), cmd := c\<rparr>)
                 (StringP sc nm alias defValue usage (cmd b))
           | TBool \<Rightarrow>
               map_option (\<lambda>c. b\<lparr>optBool := AList.update nm v (optBool b), cmd := c\<rparr>)
                 (BoolP sc nm alias False usage (cmd b))
           | _ \<Rightarrow> Some b)
      | _ \<Rightarrow> None)"

text \<open>
  The body of the loop \<^verbatim>\<open>for _, info := range fields(obj)\<close> of \<^verbatim>\<open>New\<close>. A field
  whose first byte changes when upper-cased is skipped. (A Go field name is never empty,
  so \<^verbatim>\<open>Name[0:1]\<close> is in range.) The flag set is fetched before the switch, and
  fetching the local one can panic.

  The closures are appended by \<^verbatim>\<open>for _, env := range env { envs = append(envs, func() {...}) }\<close>
  and read the loop variable \<^verbatim>\<open>env\<close> when they run. The code is of 2022, so its
  module is compiled with the loop semantics of Go before 1.22: the loop has one variable
  \<^verbatim>\<open>env\<close>, which every closure of the field shares and which holds the last name once
  the loop is over. The flag set, the flag name and the default are declared in the body
  of the outer loop and are the field's own.
\<close>

definition skipped :: "sfield \<Rightarrow> bool" where
  "skipped fieldType = (ToUpper (take 1 (Name fieldType)) \<noteq> take 1 (Name fieldType))"

definition New_field :: "fieldInfo \<Rightarrow> build \<Rightarrow> build option" where
  "New_field info b =
     (let fieldType = FieldType info;
          v = FieldValue info
      in if skipped fieldType then Some b
         else
           let (nm, alias) = name (Name fieldType) (Tag_Get (Tag fieldType) ''name'')
                                  (Tag_Get (Tag fieldType) ''short'');
               usage = Tag_Get (Tag fieldType) ''usage'';
               env0 = Split (Tag_Get (Tag fieldType) ''env'') CHR '','';
               defValue = Tag_Get (Tag fieldType) ''default'';
               env = (if length env0 = 1 \<and> env0 ! 0 = [] then [] else env0);
               defInt = (case Atoi defValue of None \<Rightarrow> 0 | Some n \<Rightarrow> n);
               sc = (if Tag_Get (Tag fieldType) ''local'' = ''true'' then Local else Persistent)
           in case (case sc of Persistent \<Rightarrow> Some (cmd b) | Local \<Rightarrow> LocalFlags (cmd b)) of
                None \<Rightarrow> None
              | Some c \<Rightarrow>
                  (case register fieldType v sc nm alias defValue defInt usage (b\<lparr>cmd := c\<rparr>) of
                     None \<Rightarrow> None
                   | Some b1 \<Rightarrow>
                       Some (b1\<lparr>envs := envs b1 @
                               (case env of
                                  [] \<Rightarrow> []
                                | _ \<Rightarrow> replicate (length env)
                                         (envCallback sc (last env) nm defValue))\<rparr>)))"

fun New_fields :: "fieldInfo list \<Rightarrow> build \<Rightarrow> build option" where
  "New_fields [] b = Some b"
| "New_fields (info # infos) b =
     (case New_field info b of None \<Rightarrow> None | Some b1 \<Rightarrow> New_fields infos b1)"

text \<open>
  \<^verbatim>\<open>func New(obj Runnable, cmd cobra.Command, opts ...CliOption) *cobra.Command\<close>:
  \<open>obj\<close> is the field list of the record type, \<open>run\<close>, \<open>pre\<close> and \<open>ppre\<close> are the
  object's \<^verbatim>\<open>Run\<close>, \<^verbatim>\<open>Pre\<close> and \<^verbatim>\<open>PersistentPre\<close> methods (the last two optional),
  \<open>st\<close> holds the record and the flags of \<^verbatim>\<open>cmd\<close>. \<^const>\<open>None\<close> is a panic.
\<close>

definition New ::
  "sfield list \<Rightarrow> hook \<Rightarrow> hook option \<Rightarrow> hook option \<Rightarrow> state \<Rightarrow> (command \<times> state) option" where
  "New obj run pre ppre st =
     (case fields [] 0 obj of
        None \<Rightarrow> None
      | Some infos \<Rightarrow>
          (case New_fields infos
                  \<lparr>cmd = st, envs = [], arrays = [], slices = [], maps = [],
                   optString = [], optBool = [], optInt = []\<rparr> of
             None \<Rightarrow> None
           | Some b \<Rightarrow>
               let ppre1 = (case ppre of Some p \<Rightarrow> p | None \<Rightarrow> (\<lambda>s. (Nil_error, s)));
                   bnd = (\<lambda>next. bind next (arrays b) (slices b) (maps b)
                                    (optInt b) (optBool b) (optString b) (envs b))
               in Some (\<lparr>PersistentPreRunE = bnd (Some ppre1),
                         PreRunE = bnd pre,
                         RunE = bnd (Some run)\<rparr>, cmd b)))"


text \<open>
  Starting points for examples: no flag, no shorthand, no variable set, one value in every
  field.
\<close>

definition no_flags :: "string \<rightharpoonup> flag" where
  "no_flags k = None"

definition no_lflags :: "string \<rightharpoonup> lentry" where
  "no_lflags k = None"

definition no_short :: "char \<rightharpoonup> string" where
  "no_short c = None"

definition no_env :: "string \<Rightarrow> string" where
  "no_env e = []"

definition all_fields :: "val \<Rightarrow> loc \<Rightarrow> val" where
  "all_fields x l = x"

section \<open>Properties of the naming resolver\<close>

lemmas char_case_defs = to_lower_def to_upper_def is_lower_def is_upper_def ToLower_def ToUpper_def

text \<open>
  Claim C5, as the specification states it: the declared name \<^verbatim>\<open>Tag_Name\<close> with no
  overrides resolves to the flag name \<^verbatim>\<open>tag-name\<close> with an empty alias. The resolver
  returns neither: the flag name is not \<^verbatim>\<open>tag-name\<close> and the alias is not empty.
\<close>

theorem name_Tag_Name_not_kebab:
  "fst (name ''Tag_Name'' [] []) \<noteq> ''tag-name'' \<and> snd (name ''Tag_Name'' [] []) \<noteq> []"
  by (simp add: name_def Let_def char_case_defs)

text \<open>
  Claim C5, amended: the declared name \<^verbatim>\<open>Tag_Name\<close> with no overrides resolves to the
  flag name \<^verbatim>\<open>name\<close> (the lower-cased last segment, moved to the front) and the alias
  \<^verbatim>\<open>tag\<close> (the lower-cased first segment).
\<close>

theorem name_Tag_Name:
  "name ''Tag_Name'' [] [] = (''name'', ''tag'')"
  by (simp add: name_def Let_def char_case_defs)

section \<open>Properties of the write-back steps\<close>

lemma flags_Set_field [simp]: "flags (Set_field v x st) = flags st"
  by (simp add: Set_field_def)

lemma environ_Set_field [simp]: "environ (Set_field v x st) = environ st"
  by (simp add: Set_field_def)

lemma store_Set_field [simp]: "store (Set_field v x st) l = (if l = v then x else store st l)"
  by (simp add: Set_field_def)

lemma Set_field_same [simp]: "Set_field v (store st v) st = st"
  by (simp add: Set_field_def)




lemma registered_SliceD:
  "registered TyStringSlice (flags st) k \<Longrightarrow>
     \<exists>a b. flags st k = Some a \<and> Value a = Own (VSlice b)
       \<and> GetStringSlice st k = Inr (Some (tokens_of b))"
  unfolding registered_def GetStringSlice_def flag_value_def
  by (cases "flags st k") (auto elim!: own_shape.elims)

lemma registered_ArrayD:
  "registered TyStringArray (flags st) k \<Longrightarrow>
     \<exists>a b. flags st k = Some a \<and> Value a = Own (VSlice b)
       \<and> GetStringArray st k = Inr (Some (tokens_of b))"
  unfolding registered_def GetStringArray_def flag_value_def
  by (cases "flags st k") (auto elim!: own_shape.elims)




lemma GetStringSlice_cong:
  "flags s = flags st \<Longrightarrow> registered TyStringSlice (flags st) k \<Longrightarrow>
     GetStringSlice s k = GetStringSlice st k"
  using registered_SliceD[of s k] registered_SliceD[of st k] by auto

lemma GetStringArray_cong:
  "flags s = flags st \<Longrightarrow> registered TyStringArray (flags st) k \<Longrightarrow>
     GetStringArray s k = GetStringArray st k"
  using registered_ArrayD[of s k] registered_ArrayD[of st k] by auto

subsection \<open>No step touches the flags, the environment or a field outside its map\<close>

lemma frame_refl: "frame m st st"
  by (simp add: frame_def)

lemma frame_Cons: "frame m (Set_field v x st) st' \<Longrightarrow> frame ((k, v) # m) st st'"
  by (auto simp: frame_def)

lemma frame_Cons2: "frame m st st' \<Longrightarrow> frame (e # m) st st'"
  by (auto simp: frame_def)

lemma assignOptBool_frame: "frame m st (snd (assignOptBool m st))"
proof (induction m arbitrary: st)
  case Nil
  show ?case by (simp add: frame_refl)
next
  case (Cons e m)
  obtain k0 v where e: "e = (k0, v)" by (cases e)
  show ?case unfolding e using Cons.IH
    by (auto simp: Let_def frame_refl intro: frame_Cons frame_Cons2
             split: option.splits sum.splits)
qed

lemma assignOptString_frame: "frame m st (snd (assignOptString m st))"
proof (induction m arbitrary: st)
  case Nil
  show ?case by (simp add: frame_refl)
next
  case (Cons e m)
  obtain k0 v where e: "e = (k0, v)" by (cases e)
  show ?case unfolding e using Cons.IH
    by (auto simp: Let_def frame_refl intro: frame_Cons frame_Cons2
             split: option.splits sum.splits)
qed

lemma assignOptInt_frame: "frame m st (snd (assignOptInt m st))"
proof (induction m arbitrary: st)
  case Nil
  show ?case by (simp add: frame_refl)
next
  case (Cons e m)
  obtain k0 v where e: "e = (k0, v)" by (cases e)
  show ?case unfolding e using Cons.IH
    by (auto simp: Let_def frame_refl intro: frame_Cons frame_Cons2
             split: option.splits sum.splits)
qed

lemma assignMaps_frame: "frame m st (snd (assignMaps m st))"
proof (induction m arbitrary: st)
  case Nil
  show ?case by (simp add: frame_refl)
next
  case (Cons e m)
  obtain k0 v where e: "e = (k0, v)" by (cases e)
  show ?case unfolding e using Cons.IH
    by (auto simp: Let_def frame_refl intro: frame_Cons frame_Cons2
             split: option.splits sum.splits)
qed

lemma assignSlices_frame: "frame m st (snd (assignSlices m st))"
proof (induction m arbitrary: st)
  case Nil
  show ?case by (simp add: frame_refl)
next
  case (Cons e m)
  obtain k0 v where e: "e = (k0, v)" by (cases e)
  show ?case unfolding e using Cons.IH
    by (auto simp: Let_def frame_refl intro: frame_Cons frame_Cons2
             split: option.splits sum.splits)
qed

lemma assignArrays_frame: "frame m st (snd (assignArrays m st))"
proof (induction m arbitrary: st)
  case Nil
  show ?case by (simp add: frame_refl)
next
  case (Cons e m)
  obtain k0 v where e: "e = (k0, v)" by (cases e)
  show ?case unfolding e using Cons.IH
    by (auto simp: Let_def frame_refl intro: frame_Cons frame_Cons2
             split: option.splits sum.splits)
qed

subsection \<open>A loop over entries with registered flags\<close>

text \<open>
  Every loop has the same shape: on an entry whose flag is registered, the step assigns to
  the entry's field a value \<open>w k old\<close> fixed by the flag table, the name and the field's
  prior value (\<open>old\<close> itself when nothing is to be assigned), and goes on. Such a loop ends
  without error and leaves \<open>w k old\<close> in every field, provided no two entries share a field.
\<close>

lemma loop_assigns:
  fixes F :: "fieldmap \<Rightarrow> hook"
  assumes nil: "\<And>st. F [] st = (Nil_error, st)"
    and cons: "\<And>k v m st. flags st = fl \<Longrightarrow> R k \<Longrightarrow>
                 F ((k, v) # m) st = F m (Set_field v (w k (store st v)) st)"
    and fl: "flags st = fl"
    and reg: "\<forall>(k, v) \<in> set m. R k"
    and dist: "distinct (map snd m)"
  shows "\<exists>st'. F m st = (Nil_error, st') \<and> frame m st st' \<and>
           (\<forall>(k, v) \<in> set m. store st' v = w k (store st v))"
  using fl reg dist
proof (induction m arbitrary: st)
  case Nil
  show ?case by (simp add: nil frame_refl)
next
  case (Cons e m)
  obtain k0 v0 where e: "e = (k0, v0)" by (cases e)
  define st1 where "st1 = Set_field v0 (w k0 (store st v0)) st"
  have step: "F (e # m) st = F m st1"
    unfolding e st1_def using Cons.prems e by (intro cons) auto
  have fl1: "flags st1 = fl" using Cons.prems(1) by (simp add: st1_def)
  have reg1: "\<forall>(k, v) \<in> set m. R k" using Cons.prems(2) by simp
  have d: "distinct (map snd m)" "v0 \<notin> snd ` set m" using Cons.prems(3) e by auto
  from Cons.IH[OF fl1 reg1 d(1)] obtain st' where st':
    "F m st1 = (Nil_error, st')" "frame m st1 st'"
    "\<forall>(k, v) \<in> set m. store st' v = w k (store st1 v)"
    by blast
  have fr: "frame (e # m) st st'"
    using st'(2) unfolding e st1_def by (rule frame_Cons)
  have head: "store st' v0 = w k0 (store st v0)"
    using st'(2) d(2) by (simp add: frame_def st1_def)
  have tail: "store st' v = w k (store st v)" if kv: "(k, v) \<in> set m" for k v
  proof -
    from kv d(2) have "v \<noteq> v0" by force
    then have "store st1 v = store st v" by (simp add: st1_def)
    with st'(3) kv show ?thesis by auto
  qed
  have "\<forall>(k, v) \<in> set (e # m). store st' v = w k (store st v)"
    using head tail e by auto
  then show ?case unfolding step using st'(1) fr by blast
qed

subsection \<open>What each step leaves in the fields of its map\<close>

lemma assignArrays_assigns:
  assumes reg: "\<forall>(k, v) \<in> set m. registered TyStringArray (flags st) (contextKey k)"
    and dist: "distinct (map snd m)"
  shows "\<exists>st'. assignArrays m st = (Nil_error, st') \<and> frame m st st' \<and>
           (\<forall>(k, v) \<in> set m. \<exists>a ts. flags st (contextKey k) = Some a
              \<and> GetStringArray st (contextKey k) = Inr (Some ts)
              \<and> store st' v = VSlice (Some (if Changed a \<and> ts = [] then [[]] else ts)))"
proof -
  define w where "w = (\<lambda>k (old::val). case flags st (contextKey k) of None \<Rightarrow> old
      | Some a \<Rightarrow> (case GetStringArray st (contextKey k) of
            Inr (Some ts) \<Rightarrow> VSlice (Some (if Changed a \<and> ts = [] then [[]] else ts))
          | _ \<Rightarrow> old))"
  have "\<exists>st'. assignArrays m st = (Nil_error, st') \<and> frame m st st' \<and>
           (\<forall>(k, v) \<in> set m. store st' v = w k (store st v))"
  proof (rule loop_assigns[where fl = "flags st"
        and R = "\<lambda>k. registered TyStringArray (flags st) (contextKey k)"])
    show "assignArrays [] s = (Nil_error, s)" for s by simp
    show "assignArrays ((k, v) # m) s = assignArrays m (Set_field v (w k (store s v)) s)"
      if "flags s = flags st" "registered TyStringArray (flags st) (contextKey k)" for k v m s
      using that registered_ArrayD[OF that(2)] GetStringArray_cong[OF that]
      by (auto simp: w_def tokens_of_def)
  qed (use assms in auto)
  then obtain st' where st': "assignArrays m st = (Nil_error, st')" "frame m st st'"
    "\<forall>(k, v) \<in> set m. store st' v = w k (store st v)" by blast
  have "\<exists>a ts. flags st (contextKey k) = Some a
              \<and> GetStringArray st (contextKey k) = Inr (Some ts)
              \<and> store st' v = VSlice (Some (if Changed a \<and> ts = [] then [[]] else ts))"
    if "(k, v) \<in> set m" for k v
  proof -
    from reg that have "registered TyStringArray (flags st) (contextKey k)" by auto
    from registered_ArrayD[OF this] obtain a b where
      "flags st (contextKey k) = Some a" "GetStringArray st (contextKey k) = Inr (Some (tokens_of b))" by blast
    moreover from st'(3) that have "store st' v = w k (store st v)" by auto
    ultimately show ?thesis by (simp add: w_def)
  qed
  with st'(1,2) show ?thesis by blast
qed

lemma assignSlices_assigns:
  assumes reg: "\<forall>(k, v) \<in> set m. registered TyStringSlice (flags st) (contextKey k)"
    and dist: "distinct (map snd m)"
  shows "\<exists>st'. assignSlices m st = (Nil_error, st') \<and> frame m st st' \<and>
           (\<forall>(k, v) \<in> set m. \<exists>a ts. flags st (contextKey k) = Some a
              \<and> GetStringSlice st (contextKey k) = Inr (Some ts)
              \<and> store st' v = VSlice (Some (if Changed a \<and> ts = [] then [[]] else ts)))"
proof -
  define w where "w = (\<lambda>k (old::val). case flags st (contextKey k) of None \<Rightarrow> old
      | Some a \<Rightarrow> (case GetStringSlice st (contextKey k) of
            Inr (Some ts) \<Rightarrow> VSlice (Some (if Changed a \<and> ts = [] then [[]] else ts))
          | _ \<Rightarrow> old))"
  have "\<exists>st'. assignSlices m st = (Nil_error, st') \<and> frame m st st' \<and>
           (\<forall>(k, v) \<in> set m. store st' v = w k (store st v))"
  proof (rule loop_assigns[where fl = "flags st"
        and R = "\<lambda>k. registered TyStringSlice (flags st) (contextKey k)"])
    show "assignSlices [] s = (Nil_error, s)" for s by simp
    show "assignSlices ((k, v) # m) s = assignSlices m (Set_field v (w k (store s v)) s)"
      if "flags s = flags st" "registered TyStringSlice (flags st) (contextKey k)" for k v m s
      using that registered_SliceD[OF that(2)] GetStringSlice_cong[OF that]
      by (auto simp: w_def tokens_of_def)
  qed (use assms in auto)
  then obtain st' where st': "assignSlices m st = (Nil_error, st')" "frame m st st'"
    "\<forall>(k, v) \<in> set m. store st' v = w k (store st v)" by blast
  have "\<exists>a ts. flags st (contextKey k) = Some a
              \<and> GetStringSlice st (contextKey k) = Inr (Some ts)
              \<and> store st' v = VSlice (Some (if Changed a \<and> ts = [] then [[]] else ts))"
    if "(k, v) \<in> set m" for k v
  proof -
    from reg that have "registered TyStringSlice (flags st) (contextKey k)" by auto
    from registered_SliceD[OF this] obtain a b where
      "flags st (contextKey k) = Some a" "GetStringSlice st (contextKey k) = Inr (Some (tokens_of b))" by blast
    moreover from st'(3) that have "store st' v = w k (store st v)" by auto
    ultimately show ?thesis by (simp add: w_def)
  qed
  with st'(1,2) show ?thesis by blast
qed

lemma assignMaps_assigns:
  assumes reg: "\<forall>(k, v) \<in> set m. registered TyStringSlice (flags st) (contextKey k)"
    and dist: "distinct (map snd m)"
  shows "\<exists>st'. assignMaps m st = (Nil_error, st') \<and> frame m st st' \<and>
           (\<forall>(k, v) \<in> set m. \<exists>ts. GetStringSlice st (contextKey k) = Inr (Some ts)
              \<and> store st' v = VMap (Some (assignMaps_values ts Map.empty)))"
proof -
  define w where "w = (\<lambda>k (old::val). case GetStringSlice st (contextKey k) of
            Inr (Some ts) \<Rightarrow> VMap (Some (assignMaps_values ts Map.empty))
          | _ \<Rightarrow> old)"
  have "\<exists>st'. assignMaps m st = (Nil_error, st') \<and> frame m st st' \<and>
           (\<forall>(k, v) \<in> set m. store st' v = w k (store st v))"
  proof (rule loop_assigns[where fl = "flags st"
        and R = "\<lambda>k. registered TyStringSlice (flags st) (contextKey k)"])
    show "assignMaps [] s = (Nil_error, s)" for s by simp
    show "assignMaps ((k, v) # m) s = assignMaps m (Set_field v (w k (store s v)) s)"
      if "flags s = flags st" "registered TyStringSlice (flags st) (contextKey k)" for k v m s
      using that registered_SliceD[OF that(2)] GetStringSlice_cong[OF that]
      by (auto simp: w_def)
  qed (use assms in auto)
  then obtain st' where st': "assignMaps m st = (Nil_error, st')" "frame m st st'"
    "\<forall>(k, v) \<in> set m. store st' v = w k (store st v)" by blast
  have "\<exists>ts. GetStringSlice st (contextKey k) = Inr (Some ts)
              \<and> store st' v = VMap (Some (assignMaps_values ts Map.empty))"
    if "(k, v) \<in> set m" for k v
  proof -
    from reg that have "registered TyStringSlice (flags st) (contextKey k)" by auto
    from registered_SliceD[OF this] obtain a b where
      "flags st (contextKey k) = Some a" "GetStringSlice st (contextKey k) = Inr (Some (tokens_of b))" by blast
    moreover from st'(3) that have "store st' v = w k (store st v)" by auto
    ultimately show ?thesis by (simp add: w_def)
  qed
  with st'(1,2) show ?thesis by blast
qed





section \<open>The claims about the write-back steps\<close>

lemmas getter_defs = GetInt_def GetBool_def GetString_def GetStringSlice_def GetStringArray_def
  flag_value_def tokens_of_def

lemmas register_defs = IntVarP_def StringVarP_def BoolVarP_def IntP_def StringP_def BoolP_def
  StringSliceP_def StringArrayP_def

lemmas example_defs = no_flags_def no_lflags_def no_short_def no_env_def all_fields_def

text \<open>
  What the two sequence steps assign. For every sequence flag, split or unsplit, whose flag
  is registered, the step ends without error and assigns to the target field the sequence
  read back from the flag, with one substitution: when the changed indicator is true and
  the sequence has no element, the field receives the one-element sequence holding the
  empty string.
\<close>

theorem sequence_write_back:
  "(distinct (map snd m) \<and> (k, v) \<in> set m
      \<and> (\<forall>(k, v) \<in> set m. registered TyStringSlice (flags st) (contextKey k)) \<longrightarrow>
      (\<exists>st' a ts. assignSlices m st = (Nil_error, st') \<and> flags st (contextKey k) = Some a
         \<and> GetStringSlice st (contextKey k) = Inr (Some ts)
         \<and> store st' v = VSlice (Some (if Changed a \<and> ts = [] then [[]] else ts))))
   \<and> (distinct (map snd m) \<and> (k, v) \<in> set m
      \<and> (\<forall>(k, v) \<in> set m. registered TyStringArray (flags st) (contextKey k)) \<longrightarrow>
      (\<exists>st' a ts. assignArrays m st = (Nil_error, st') \<and> flags st (contextKey k) = Some a
         \<and> GetStringArray st (contextKey k) = Inr (Some ts)
         \<and> store st' v = VSlice (Some (if Changed a \<and> ts = [] then [[]] else ts))))"
proof (intro conjI impI)
  assume "distinct (map snd m) \<and> (k, v) \<in> set m
      \<and> (\<forall>(k, v) \<in> set m. registered TyStringSlice (flags st) (contextKey k))"
  then show "\<exists>st' a ts. assignSlices m st = (Nil_error, st') \<and> flags st (contextKey k) = Some a
         \<and> GetStringSlice st (contextKey k) = Inr (Some ts)
         \<and> store st' v = VSlice (Some (if Changed a \<and> ts = [] then [[]] else ts))"
    using assignSlices_assigns[of m st] by blast
next
  assume "distinct (map snd m) \<and> (k, v) \<in> set m
      \<and> (\<forall>(k, v) \<in> set m. registered TyStringArray (flags st) (contextKey k))"
  then show "\<exists>st' a ts. assignArrays m st = (Nil_error, st') \<and> flags st (contextKey k) = Some a
         \<and> GetStringArray st (contextKey k) = Inr (Some ts)
         \<and> store st' v = VSlice (Some (if Changed a \<and> ts = [] then [[]] else ts))"
    using assignArrays_assigns[of m st] by blast
qed

theorem sequence_write_back_witness:
  "store (snd (assignSlices [(''tags'', [0])]
      \<lparr>flags = [''tags'' \<mapsto> \<lparr>Shorthand = [], Usage = [], ValueType = TyStringSlice,
                  DefValue = VSlice None, Value = Own (VSlice (Some [])), Changed = True,
                  FlagScope = Persistent\<rparr>],
       store = all_fields (VSlice None), environ = no_env,
       pshort = no_short, porder = [], lflags = no_lflags, lshort = no_short\<rparr>)) [0] = VSlice (Some [[]])
   \<and> store (snd (assignArrays [(''args'', [1])]
      \<lparr>flags = [''args'' \<mapsto> \<lparr>Shorthand = [], Usage = [], ValueType = TyStringArray,
                  DefValue = VSlice None, Value = Own (VSlice (Some [''a,b'', ''c''])),
                  Changed = True, FlagScope = Persistent\<rparr>],
       store = all_fields (VSlice None), environ = no_env,
       pshort = no_short, porder = [], lflags = no_lflags, lshort = no_short\<rparr>)) [1] = VSlice (Some [''a,b'', ''c''])"
proof -
  have ck: "contextKey ''tags'' = ''tags''" "contextKey ''args'' = ''args''"
    by (simp_all add: contextKey_def)
  have 1: "store (snd (assignSlices [(''tags'', [0])]
      \<lparr>flags = [''tags'' \<mapsto> \<lparr>Shorthand = [], Usage = [], ValueType = TyStringSlice,
                  DefValue = VSlice None, Value = Own (VSlice (Some [])), Changed = True,
                  FlagScope = Persistent\<rparr>],
       store = all_fields (VSlice None), environ = no_env,
       pshort = no_short, porder = [], lflags = no_lflags, lshort = no_short\<rparr>)) [0] = VSlice (Some [[]])"
    using sequence_write_back[of "[(''tags'', [0])]" "''tags''" "[0]"
      "\<lparr>flags = [''tags'' \<mapsto> \<lparr>Shorthand = [], Usage = [], ValueType = TyStringSlice,
                  DefValue = VSlice None, Value = Own (VSlice (Some [])), Changed = True,
                  FlagScope = Persistent\<rparr>],
       store = all_fields (VSlice None), environ = no_env,
       pshort = no_short, porder = [], lflags = no_lflags, lshort = no_short\<rparr>", THEN conjunct1]
    by (auto simp: ck registered_def getter_defs)
  have 2: "store (snd (assignArrays [(''args'', [1])]
      \<lparr>flags = [''args'' \<mapsto> \<lparr>Shorthand = [], Usage = [], ValueType = TyStringArray,
                  DefValue = VSlice None, Value = Own (VSlice (Some [''a,b'', ''c''])),
                  Changed = True, FlagScope = Persistent\<rparr>],
       store = all_fields (VSlice None), environ = no_env,
       pshort = no_short, porder = [], lflags = no_lflags, lshort = no_short\<rparr>)) [1] = VSlice (Some [''a,b'', ''c''])"
    using sequence_write_back[of "[(''args'', [1])]" "''args''" "[1]"
      "\<lparr>flags = [''args'' \<mapsto> \<lparr>Shorthand = [], Usage = [], ValueType = TyStringArray,
                  DefValue = VSlice None, Value = Own (VSlice (Some [''a,b'', ''c''])),
                  Changed = True, FlagScope = Persistent\<rparr>],
       store = all_fields (VSlice None), environ = no_env,
       pshort = no_short, porder = [], lflags = no_lflags, lshort = no_short\<rparr>", THEN conjunct2]
    by (auto simp: ck registered_def getter_defs)
  from 1 2 show ?thesis ..
qed


text \<open>
  Claim C1: a sequence flag whose changed indicator is true and whose sequence is empty
  gives the one-element sequence holding the empty string, and a flag that was never
  supplied leaves the target field at its prior state. The code keeps the first half (see
  above) and breaks the second. The steps guard the assignment with \<^verbatim>\<open>if s != nil\<close>,
  whose only purpose is to skip the write; but the getters never return \<^verbatim>\<open>nil\<close>, so
  the guard never holds back, where the steps for optional fields do skip a flag that is
  not changed. Here the field \<^verbatim>\<open>Tags\<close> held \<^verbatim>\<open>["old"]\<close>, the flag is as the
  registrar leaves it (default \<^verbatim>\<open>nil\<close>, not changed), and after the step the field is
  the empty sequence, for the split and for the unsplit kind.
\<close>

theorem unsupplied_sequence_overwritten:
  "StringSliceP Persistent ''tags'' [] None []
       \<lparr>flags = no_flags, store = all_fields (VSlice (Some [''old''])), environ = no_env,
        pshort = no_short, porder = [], lflags = no_lflags, lshort = no_short\<rparr>
     = Some
       \<lparr>flags = no_flags(''tags'' \<mapsto>
                \<lparr>Shorthand = [], Usage = [], ValueType = TyStringSlice, DefValue = VSlice None,
                 Value = Own (VSlice None), Changed = False, FlagScope = Persistent\<rparr>),
        store = all_fields (VSlice (Some [''old''])), environ = no_env,
        pshort = no_short, porder = [''tags''], lflags = no_lflags, lshort = no_short\<rparr>
   \<and> store (snd (assignSlices [(''tags'', [0])]
       \<lparr>flags = no_flags(''tags'' \<mapsto>
                \<lparr>Shorthand = [], Usage = [], ValueType = TyStringSlice, DefValue = VSlice None,
                 Value = Own (VSlice None), Changed = False, FlagScope = Persistent\<rparr>),
        store = all_fields (VSlice (Some [''old''])), environ = no_env,
        pshort = no_short, porder = [''tags''], lflags = no_lflags, lshort = no_short\<rparr>)) [0]
     = VSlice (Some [])
   \<and> StringArrayP Persistent ''tags'' [] None []
       \<lparr>flags = no_flags, store = all_fields (VSlice (Some [''old''])), environ = no_env,
        pshort = no_short, porder = [], lflags = no_lflags, lshort = no_short\<rparr>
     = Some
       \<lparr>flags = no_flags(''tags'' \<mapsto>
                \<lparr>Shorthand = [], Usage = [], ValueType = TyStringArray, DefValue = VSlice None,
                 Value = Own (VSlice None), Changed = False, FlagScope = Persistent\<rparr>),
        store = all_fields (VSlice (Some [''old''])), environ = no_env,
        pshort = no_short, porder = [''tags''], lflags = no_lflags, lshort = no_short\<rparr>
   \<and> store (snd (assignArrays [(''tags'', [0])]
       \<lparr>flags = no_flags(''tags'' \<mapsto>
                \<lparr>Shorthand = [], Usage = [], ValueType = TyStringArray, DefValue = VSlice None,
                 Value = Own (VSlice None), Changed = False, FlagScope = Persistent\<rparr>),
        store = all_fields (VSlice (Some [''old''])), environ = no_env,
        pshort = no_short, porder = [''tags''], lflags = no_lflags, lshort = no_short\<rparr>)) [0]
     = VSlice (Some [])"
  by (simp add: register_defs AddFlag_def example_defs getter_defs contextKey_def
        Set_field_def Let_def)



subsection \<open>Parsing the tokens of a mapping flag\<close>

lemma takeWhile_absent: "c \<notin> set t \<Longrightarrow> takeWhile (\<lambda>x. x \<noteq> c) t = t"
  by (induction t) auto

lemma assignMaps_values_Cons:
  "assignMaps_values (t # s) vals =
     assignMaps_values s (vals(takeWhile (\<lambda>x. x \<noteq> CHR ''='') t \<mapsto>
        (if CHR ''='' \<in> set t then tl (dropWhile (\<lambda>x. x \<noteq> CHR ''='') t) else [])))"
  by (simp add: SplitN2_def Let_def takeWhile_absent)

lemma assignMaps_values_append:
  "assignMaps_values (ts @ us) vals = assignMaps_values us (assignMaps_values ts vals)"
  by (induction ts arbitrary: vals)
     (simp_all only: assignMaps_values_Cons append.simps assignMaps_values.simps)

lemma assignMaps_values_other:
  "\<forall>u \<in> set us. takeWhile (\<lambda>x. x \<noteq> CHR ''='') u \<noteq> k \<Longrightarrow>
     assignMaps_values us vals k = vals k"
proof (induction us arbitrary: vals)
  case Nil
  show ?case by simp
next
  case (Cons u us)
  then show ?case
    by (simp only: assignMaps_values_Cons) auto
qed

lemma assignMaps_values_last:
  assumes "\<forall>u \<in> set us. takeWhile (\<lambda>x. x \<noteq> CHR ''='') u \<noteq> takeWhile (\<lambda>x. x \<noteq> CHR ''='') t"
  shows "assignMaps_values (ts @ t # us) vals (takeWhile (\<lambda>x. x \<noteq> CHR ''='') t) =
     Some (if CHR ''='' \<in> set t then tl (dropWhile (\<lambda>x. x \<noteq> CHR ''='') t) else [])"
proof -
  have "assignMaps_values (ts @ t # us) vals =
      assignMaps_values us ((assignMaps_values ts vals)(takeWhile (\<lambda>x. x \<noteq> CHR ''='') t \<mapsto>
        (if CHR ''='' \<in> set t then tl (dropWhile (\<lambda>x. x \<noteq> CHR ''='') t) else [])))"
    by (simp only: assignMaps_values_append assignMaps_values_Cons)
  then show ?thesis
    using assignMaps_values_other[OF assms] by simp
qed

lemma key_value_split:
  "CHR ''='' \<notin> set key \<Longrightarrow>
     takeWhile (\<lambda>x. x \<noteq> CHR ''='') (key @ CHR ''='' # value) = key \<and>
     tl (dropWhile (\<lambda>x. x \<noteq> CHR ''='') (key @ CHR ''='' # value)) = value"
  by (induction key) auto

text \<open>
  Claim C3. For every mapping field whose flag is registered, the write-back step ends
  without error and assigns the mapping parsed from the flag's tokens. Each token is split
  once at its first \<^verbatim>\<open>=\<close>: a token without \<^verbatim>\<open>=\<close> maps its whole text to the
  empty string, a token with one maps the text before the first \<^verbatim>\<open>=\<close> to all that
  follows it, further \<^verbatim>\<open>=\<close> included; of two tokens with one key the later wins.
  The tokens \<^verbatim>\<open>a=1\<close>, \<^verbatim>\<open>b\<close> give \<^verbatim>\<open>{a: "1", b: ""}\<close> and the tokens
  \<^verbatim>\<open>a=1\<close>, \<^verbatim>\<open>a=2\<close> give \<^verbatim>\<open>{a: "2"}\<close>.
\<close>

theorem mapping_write_back:
  "(distinct (map snd m) \<and> (k, v) \<in> set m
      \<and> (\<forall>(k, v) \<in> set m. registered TyStringSlice (flags st) (contextKey k)) \<longrightarrow>
      (\<exists>st' ts. assignMaps m st = (Nil_error, st')
         \<and> GetStringSlice st (contextKey k) = Inr (Some ts)
         \<and> store st' v = VMap (Some (assignMaps_values ts Map.empty))))
   \<and> (CHR ''='' \<notin> set t \<and> (\<forall>u \<in> set us. takeWhile (\<lambda>x. x \<noteq> CHR ''='') u \<noteq> t) \<longrightarrow>
        assignMaps_values (ts @ t # us) vals t = Some [])
   \<and> (CHR ''='' \<notin> set key \<and> (\<forall>u \<in> set us. takeWhile (\<lambda>x. x \<noteq> CHR ''='') u \<noteq> key) \<longrightarrow>
        assignMaps_values (ts @ (key @ CHR ''='' # value) # us) vals key = Some value)
   \<and> assignMaps_values [''a=1'', ''b''] Map.empty = [''a'' \<mapsto> ''1'', ''b'' \<mapsto> []]
   \<and> assignMaps_values [''a=1'', ''a=2''] Map.empty = [''a'' \<mapsto> ''2'']"
proof (intro conjI impI)
  assume "distinct (map snd m) \<and> (k, v) \<in> set m
      \<and> (\<forall>(k, v) \<in> set m. registered TyStringSlice (flags st) (contextKey k))"
  then show "\<exists>st' ts. assignMaps m st = (Nil_error, st')
         \<and> GetStringSlice st (contextKey k) = Inr (Some ts)
         \<and> store st' v = VMap (Some (assignMaps_values ts Map.empty))"
    using assignMaps_assigns[of m st] by blast
next
  assume a: "CHR ''='' \<notin> set t \<and> (\<forall>u \<in> set us. takeWhile (\<lambda>x. x \<noteq> CHR ''='') u \<noteq> t)"
  then have "takeWhile (\<lambda>x. x \<noteq> CHR ''='') t = t"
    by (simp add: takeWhile_absent)
  with a assignMaps_values_last[of us t ts vals]
  show "assignMaps_values (ts @ t # us) vals t = Some []" by simp
next
  assume a: "CHR ''='' \<notin> set key \<and> (\<forall>u \<in> set us. takeWhile (\<lambda>x. x \<noteq> CHR ''='') u \<noteq> key)"
  with assignMaps_values_last[of us "key @ CHR ''='' # value" ts vals] key_value_split[of key "value"]
  show "assignMaps_values (ts @ (key @ CHR ''='' # value) # us) vals key = Some value"
    by simp
next
  show "assignMaps_values [''a=1'', ''b''] Map.empty = [''a'' \<mapsto> ''1'', ''b'' \<mapsto> []]"
    by (simp add: SplitN2_def)
next
  show "assignMaps_values [''a=1'', ''a=2''] Map.empty = [''a'' \<mapsto> ''2'']"
    by (simp add: SplitN2_def)
qed

theorem mapping_write_back_witness:
  "(\<exists>st'. assignMaps [(''label'', [2])]
      \<lparr>flags = [''label'' \<mapsto> \<lparr>Shorthand = ''l'', Usage = [], ValueType = TyStringSlice,
                  DefValue = VSlice None, Value = Own (VSlice (Some [''a=1'', ''b'', ''a=x=y''])),
                  Changed = True, FlagScope = Persistent\<rparr>],
       store = all_fields (VMap None), environ = no_env,
       pshort = no_short, porder = [], lflags = no_lflags, lshort = no_short\<rparr> = (Nil_error, st')
     \<and> store st' [2] = VMap (Some [''a'' \<mapsto> ''x=y'', ''b'' \<mapsto> []]))
   \<and> assignMaps_values [''k=1'', ''b'', ''c''] Map.empty ''b'' = Some []
   \<and> assignMaps_values [''k=1'', ''k=2=3'', ''c''] Map.empty ''k'' = Some ''2=3''"
proof -
  let ?st = "\<lparr>flags = [''label'' \<mapsto> \<lparr>Shorthand = ''l'', Usage = [], ValueType = TyStringSlice,
                  DefValue = VSlice None, Value = Own (VSlice (Some [''a=1'', ''b'', ''a=x=y''])),
                  Changed = True, FlagScope = Persistent\<rparr>],
       store = all_fields (VMap None), environ = no_env,
       pshort = no_short, porder = [], lflags = no_lflags, lshort = no_short\<rparr>"
  have ck: "contextKey ''label'' = ''label''"
    by (simp add: contextKey_def)
  have v: "assignMaps_values [''a=1'', ''b'', ''a=x=y''] Map.empty = [''a'' \<mapsto> ''x=y'', ''b'' \<mapsto> []]"
    by (rule ext) (simp add: SplitN2_def Let_def)
  have 1: "\<exists>st'. assignMaps [(''label'', [2])] ?st = (Nil_error, st')
     \<and> store st' [2] = VMap (Some [''a'' \<mapsto> ''x=y'', ''b'' \<mapsto> []])"
    using mapping_write_back[of "[(''label'', [2])]" "''label''" "[2]" ?st, THEN conjunct1]
    by (simp add: ck registered_def getter_defs v del: assignMaps_values.simps)
  have 2: "assignMaps_values [''k=1'', ''b'', ''c''] Map.empty ''b'' = Some []"
    using mapping_write_back[of _ _ _ _ "''b''" "[''c'']" "[''k=1'']" Map.empty,
        THEN conjunct2, THEN conjunct1]
    by simp
  have 3: "assignMaps_values [''k=1'', ''k=2=3'', ''c''] Map.empty ''k'' = Some ''2=3''"
    using mapping_write_back[of _ _ _ _ _ "[''c'']" "[''k=1'']" Map.empty "''k''" "''2=3''",
        THEN conjunct2, THEN conjunct2, THEN conjunct1]
    by simp
  from 1 2 3 show ?thesis by blast
qed




section \<open>The claims about the hook chain\<close>

lemma run_envs_foldl: "run_envs evs st = foldl (\<lambda>s cb. cb s) st evs"
  by (induction evs arbitrary: st) auto

lemma step_case:
  "(case r of (Nil_error, s) \<Rightarrow> f s | (err, s) \<Rightarrow> (err, s)) =
     (if fst r = Nil_error then f (snd r) else r)"
  by (cases r; cases "fst r") auto

lemma bind_Some:
  "bind (Some next) arrs slcs mps oInt oBool oString evs = Some h \<Longrightarrow>
   h st =
     (let s0 = foldl (\<lambda>s cb. cb s) st evs;
          r1 = assignArrays arrs s0;
          r2 = assignSlices slcs (snd r1);
          r3 = assignMaps mps (snd r2);
          r4 = assignOptInt oInt (snd r3);
          r5 = assignOptBool oBool (snd r4);
          r6 = assignOptString oString (snd r5)
      in if fst r1 \<noteq> Nil_error then r1
         else if fst r2 \<noteq> Nil_error then r2
         else if fst r3 \<noteq> Nil_error then r3
         else if fst r4 \<noteq> Nil_error then r4
         else if fst r5 \<noteq> Nil_error then r5
         else if fst r6 \<noteq> Nil_error then r6
         else next (snd r6))"
  by (auto simp add: bind_def step_case Let_def run_envs_foldl)

text \<open>
  Claim C9. The hook that \<^verbatim>\<open>bind\<close> builds runs the environment overlay first, every
  callback in turn, then the write-back steps in the order unsplit-sequence,
  split-sequence, mapping, optional-integer, optional-boolean, optional-string, each on the
  state the one before left, then the wrapped callable. The first step that does not
  return \<^verbatim>\<open>nil\<close> ends the invocation: its error is the hook's result, the state is the
  one that step left, and neither a later step nor the wrapped callable has run.
\<close>

theorem hook_chain_order:
  "\<exists>h. bind (Some next) arrs slcs mps oInt oBool oString evs = Some h \<and>
     (\<forall>st. h st =
       (let s0 = foldl (\<lambda>s cb. cb s) st evs;
            r1 = assignArrays arrs s0;
            r2 = assignSlices slcs (snd r1);
            r3 = assignMaps mps (snd r2);
            r4 = assignOptInt oInt (snd r3);
            r5 = assignOptBool oBool (snd r4);
            r6 = assignOptString oString (snd r5)
        in if fst r1 \<noteq> Nil_error then r1
           else if fst r2 \<noteq> Nil_error then r2
           else if fst r3 \<noteq> Nil_error then r3
           else if fst r4 \<noteq> Nil_error then r4
           else if fst r5 \<noteq> Nil_error then r5
           else if fst r6 \<noteq> Nil_error then r6
           else next (snd r6)))"
proof -
  obtain h where h: "bind (Some next) arrs slcs mps oInt oBool oString evs = Some h"
    by (simp add: bind_def)
  show ?thesis using h bind_Some[OF h] by blast
qed

text \<open>
  Two runs of one hook with an overlay callback and an entry in each of the six maps. In
  the first every flag is there: the optional string \<^verbatim>\<open>tag\<close> was not passed, the
  overlay sets it from \<^verbatim>\<open>MY_TAG\<close> and marks it changed, so the last write-back step
  finds it changed and fills field 5, which it would not had the overlay run later; the
  wrapped callable runs last and sets field 9. In the second the flags \<^verbatim>\<open>tags\<close> and
  \<^verbatim>\<open>label\<close> are missing and \<^verbatim>\<open>count\<close> has the wrong type: the error is that of
  the split-sequence step, the unsplit-sequence step before it has written field 0, and
  neither the optional-string step (field 5) nor the callable (field 9) has run.
\<close>

theorem hook_chain_order_witness:
  "\<exists>h. bind (Some (\<lambda>s. (Nil_error, Set_field [9] (VBool True) s)))
          [(''args'', [0])] [(''tags'', [1])] [(''label'', [2])] [(''count'', [3])]
          [(''force'', [4])] [(''tag'', [5])] [envCallback Persistent ''MY_TAG'' ''tag'' ''v1''] = Some h
     \<and> fst (h \<lparr>flags = [''args'' \<mapsto> \<lparr>Shorthand = [], Usage = [], ValueType = TyStringArray,
                  DefValue = VSlice None, Value = Own (VSlice (Some [''x''])), Changed = True,
                  FlagScope = Persistent\<rparr>,
                ''tags'' \<mapsto> \<lparr>Shorthand = [], Usage = [], ValueType = TyStringSlice,
                  DefValue = VSlice None, Value = Own (VSlice (Some [])), Changed = True,
                  FlagScope = Persistent\<rparr>,
                ''label'' \<mapsto> \<lparr>Shorthand = [], Usage = [], ValueType = TyStringSlice,
                  DefValue = VSlice None, Value = Own (VSlice (Some [''a=1''])), Changed = True,
                  FlagScope = Persistent\<rparr>,
                ''count'' \<mapsto> \<lparr>Shorthand = [], Usage = [], ValueType = TyInt,
                  DefValue = VInt 0, Value = Own (VInt 3), Changed = True,
                  FlagScope = Persistent\<rparr>,
                ''force'' \<mapsto> \<lparr>Shorthand = [], Usage = [], ValueType = TyBool,
                  DefValue = VBool False, Value = Own (VBool False), Changed = False,
                  FlagScope = Persistent\<rparr>,
                ''tag'' \<mapsto> \<lparr>Shorthand = [], Usage = [], ValueType = TyString,
                  DefValue = VString ''v1'', Value = Own (VString ''v1''), Changed = False,
                  FlagScope = Persistent\<rparr>],
       store = all_fields (VBool False), environ = no_env(''MY_TAG'' := ''v2''),
       pshort = no_short, porder = [], lflags = no_lflags, lshort = no_short\<rparr>) = Nil_error
     \<and> map (store (snd (h \<lparr>flags = [''args'' \<mapsto> \<lparr>Shorthand = [], Usage = [], ValueType = TyStringArray,
                  DefValue = VSlice None, Value = Own (VSlice (Some [''x''])), Changed = True,
                  FlagScope = Persistent\<rparr>,
                ''tags'' \<mapsto> \<lparr>Shorthand = [], Usage = [], ValueType = TyStringSlice,
                  DefValue = VSlice None, Value = Own (VSlice (Some [])), Changed = True,
                  FlagScope = Persistent\<rparr>,
                ''label'' \<mapsto> \<lparr>Shorthand = [], Usage = [], ValueType = TyStringSlice,
                  DefValue = VSlice None, Value = Own (VSlice (Some [''a=1''])), Changed = True,
                  FlagScope = Persistent\<rparr>,
                ''count'' \<mapsto> \<lparr>Shorthand = [], Usage = [], ValueType = TyInt,
                  DefValue = VInt 0, Value = Own (VInt 3), Changed = True,
                  FlagScope = Persistent\<rparr>,
                ''force'' \<mapsto> \<lparr>Shorthand = [], Usage = [], ValueType = TyBool,
                  DefValue = VBool False, Value = Own (VBool False), Changed = False,
                  FlagScope = Persistent\<rparr>,
                ''tag'' \<mapsto> \<lparr>Shorthand = [], Usage = [], ValueType = TyString,
                  DefValue = VString ''v1'', Value = Own (VString ''v1''), Changed = False,
                  FlagScope = Persistent\<rparr>],
       store = all_fields (VBool False), environ = no_env(''MY_TAG'' := ''v2''),
       pshort = no_short, porder = [], lflags = no_lflags, lshort = no_short\<rparr>))) [[0], [1], [2], [3], [4], [5], [9]]
         = [VSlice (Some [''x'']), VSlice (Some [[]]), VMap (Some [''a'' \<mapsto> ''1'']),
            VOptInt (Some 3), VBool False, VOptString (Some ''v2''), VBool True]
     \<and> fst (h \<lparr>flags = [''args'' \<mapsto> \<lparr>Shorthand = [], Usage = [], ValueType = TyStringArray,
                  DefValue = VSlice None, Value = Own (VSlice (Some [''x''])), Changed = True,
                  FlagScope = Persistent\<rparr>,
                ''count'' \<mapsto> \<lparr>Shorthand = [], Usage = [], ValueType = TyString,
                  DefValue = VString [], Value = Own (VString []), Changed = True,
                  FlagScope = Persistent\<rparr>,
                ''tag'' \<mapsto> \<lparr>Shorthand = [], Usage = [], ValueType = TyString,
                  DefValue = VString ''v1'', Value = Own (VString ''v1''), Changed = False,
                  FlagScope = Persistent\<rparr>],
       store = all_fields (VBool False), environ = no_env(''MY_TAG'' := ''v2''),
       pshort = no_short, porder = [], lflags = no_lflags, lshort = no_short\<rparr>) = Error (FlagNotDefined ''tags'')
     \<and> map (store (snd (h \<lparr>flags = [''args'' \<mapsto> \<lparr>Shorthand = [], Usage = [], ValueType = TyStringArray,
                  DefValue = VSlice None, Value = Own (VSlice (Some [''x''])), Changed = True,
                  FlagScope = Persistent\<rparr>,
                ''count'' \<mapsto> \<lparr>Shorthand = [], Usage = [], ValueType = TyString,
                  DefValue = VString [], Value = Own (VString []), Changed = True,
                  FlagScope = Persistent\<rparr>,
                ''tag'' \<mapsto> \<lparr>Shorthand = [], Usage = [], ValueType = TyString,
                  DefValue = VString ''v1'', Value = Own (VString ''v1''), Changed = False,
                  FlagScope = Persistent\<rparr>],
       store = all_fields (VBool False), environ = no_env(''MY_TAG'' := ''v2''),
       pshort = no_short, porder = [], lflags = no_lflags, lshort = no_short\<rparr>))) [[0], [1], [2], [3], [4], [5], [9]]
         = [VSlice (Some [''x'']), VBool False, VBool False, VBool False, VBool False,
            VBool False, VBool False]"
proof -
  let ?next = "\<lambda>s. (Nil_error, Set_field [9] (VBool True) s)"
  let ?cb = "envCallback Persistent ''MY_TAG'' ''tag'' ''v1''"
  have ck: "contextKey ''args'' = ''args''" "contextKey ''tags'' = ''tags''"
      "contextKey ''label'' = ''label''" "contextKey ''count'' = ''count''"
      "contextKey ''force'' = ''force''" "contextKey ''tag'' = ''tag''"
    by (simp_all add: contextKey_def)
  have mp: "assignMaps_values [''a=1''] Map.empty = [''a'' \<mapsto> ''1'']"
    by (simp add: SplitN2_def)
  from hook_chain_order[of ?next
      "[(''args'', [0])]" "[(''tags'', [1])]" "[(''label'', [2])]" "[(''count'', [3])]"
      "[(''force'', [4])]" "[(''tag'', [5])]" "[?cb]"]
  obtain h where h: "bind (Some (\<lambda>s. (Nil_error, Set_field [9] (VBool True) s)))
          [(''args'', [0])] [(''tags'', [1])] [(''label'', [2])] [(''count'', [3])]
          [(''force'', [4])] [(''tag'', [5])] [envCallback Persistent ''MY_TAG'' ''tag'' ''v1''] = Some h"
    and run: "\<And>st. h st =
       (let s0 = foldl (\<lambda>s cb. cb s) st [?cb];
            r1 = assignArrays [(''args'', [0])] s0;
            r2 = assignSlices [(''tags'', [1])] (snd r1);
            r3 = assignMaps [(''label'', [2])] (snd r2);
            r4 = assignOptInt [(''count'', [3])] (snd r3);
            r5 = assignOptBool [(''force'', [4])] (snd r4);
            r6 = assignOptString [(''tag'', [5])] (snd r5)
        in if fst r1 \<noteq> Nil_error then r1
           else if fst r2 \<noteq> Nil_error then r2
           else if fst r3 \<noteq> Nil_error then r3
           else if fst r4 \<noteq> Nil_error then r4
           else if fst r5 \<noteq> Nil_error then r5
           else if fst r6 \<noteq> Nil_error then r6
           else ?next (snd r6))"
    by blast
  define sA where "sA = foldl (\<lambda>s cb. cb s)
       \<lparr>flags = [''args'' \<mapsto> \<lparr>Shorthand = [], Usage = [], ValueType = TyStringArray,
                  DefValue = VSlice None, Value = Own (VSlice (Some [''x''])), Changed = True,
                  FlagScope = Persistent\<rparr>,
                ''tags'' \<mapsto> \<lparr>Shorthand = [], Usage = [], ValueType = TyStringSlice,
                  DefValue = VSlice None, Value = Own (VSlice (Some [])), Changed = True,
                  FlagScope = Persistent\<rparr>,
                ''label'' \<mapsto> \<lparr>Shorthand = [], Usage = [], ValueType = TyStringSlice,
                  DefValue = VSlice None, Value = Own (VSlice (Some [''a=1''])), Changed = True,
                  FlagScope = Persistent\<rparr>,
                ''count'' \<mapsto> \<lparr>Shorthand = [], Usage = [], ValueType = TyInt,
                  DefValue = VInt 0, Value = Own (VInt 3), Changed = True,
                  FlagScope = Persistent\<rparr>,
                ''force'' \<mapsto> \<lparr>Shorthand = [], Usage = [], ValueType = TyBool,
                  DefValue = VBool False, Value = Own (VBool False), Changed = False,
                  FlagScope = Persistent\<rparr>,
                ''tag'' \<mapsto> \<lparr>Shorthand = [], Usage = [], ValueType = TyString,
                  DefValue = VString ''v1'', Value = Own (VString ''v1''), Changed = False,
                  FlagScope = Persistent\<rparr>],
       store = all_fields (VBool False), environ = no_env(''MY_TAG'' := ''v2''),
       pshort = no_short, porder = [], lflags = no_lflags, lshort = no_short\<rparr> [?cb]"
  have flA: "flags sA ''args'' = Some \<lparr>Shorthand = [], Usage = [], ValueType = TyStringArray,
                  DefValue = VSlice None, Value = Own (VSlice (Some [''x''])), Changed = True,
                  FlagScope = Persistent\<rparr>"
      "flags sA ''tags'' = Some \<lparr>Shorthand = [], Usage = [], ValueType = TyStringSlice,
                  DefValue = VSlice None, Value = Own (VSlice (Some [])), Changed = True,
                  FlagScope = Persistent\<rparr>"
      "flags sA ''label'' = Some \<lparr>Shorthand = [], Usage = [], ValueType = TyStringSlice,
                  DefValue = VSlice None, Value = Own (VSlice (Some [''a=1''])), Changed = True,
                  FlagScope = Persistent\<rparr>"
      "flags sA ''count'' = Some \<lparr>Shorthand = [], Usage = [], ValueType = TyInt,
                  DefValue = VInt 0, Value = Own (VInt 3), Changed = True,
                  FlagScope = Persistent\<rparr>"
      "flags sA ''force'' = Some \<lparr>Shorthand = [], Usage = [], ValueType = TyBool,
                  DefValue = VBool False, Value = Own (VBool False), Changed = False,
                  FlagScope = Persistent\<rparr>"
      "flags sA ''tag'' = Some \<lparr>Shorthand = [], Usage = [], ValueType = TyString,
                  DefValue = VString ''v1'', Value = Own (VString ''v2''), Changed = True,
                  FlagScope = Persistent\<rparr>"
    and stoA: "store sA = all_fields (VBool False)"
    unfolding sA_def
    by (simp_all add: envCallback_def FlagSet_GetString_def Lookup_def FlagSet_Set_def
          put_flag_def flag_value_def no_env_def Let_def)
  have a1: "assignArrays [(''args'', [0])] sA = (Nil_error, Set_field [0] (VSlice (Some [''x''])) sA)"
    by (simp add: ck flA getter_defs Let_def)
  have a2: "assignSlices [(''tags'', [1])] (Set_field [0] (VSlice (Some [''x''])) sA)
      = (Nil_error, Set_field [1] (VSlice (Some [[]])) (Set_field [0] (VSlice (Some [''x''])) sA))"
    by (simp add: ck flA getter_defs Let_def)
  have a3: "assignMaps [(''label'', [2])]
        (Set_field [1] (VSlice (Some [[]])) (Set_field [0] (VSlice (Some [''x''])) sA))
      = (Nil_error, Set_field [2] (VMap (Some [''a'' \<mapsto> ''1'']))
          (Set_field [1] (VSlice (Some [[]])) (Set_field [0] (VSlice (Some [''x''])) sA)))"
    by (simp add: ck flA getter_defs mp Let_def del: assignMaps_values.simps)
  have a4: "assignOptInt [(''count'', [3])] (Set_field [2] (VMap (Some [''a'' \<mapsto> ''1'']))
          (Set_field [1] (VSlice (Some [[]])) (Set_field [0] (VSlice (Some [''x''])) sA)))
      = (Nil_error, Set_field [3] (VOptInt (Some 3)) (Set_field [2] (VMap (Some [''a'' \<mapsto> ''1'']))
          (Set_field [1] (VSlice (Some [[]])) (Set_field [0] (VSlice (Some [''x''])) sA))))"
    by (simp add: ck flA getter_defs Let_def)
  have a5: "assignOptBool [(''force'', [4])] (Set_field [3] (VOptInt (Some 3))
          (Set_field [2] (VMap (Some [''a'' \<mapsto> ''1'']))
          (Set_field [1] (VSlice (Some [[]])) (Set_field [0] (VSlice (Some [''x''])) sA))))
      = (Nil_error, Set_field [3] (VOptInt (Some 3))
          (Set_field [2] (VMap (Some [''a'' \<mapsto> ''1'']))
          (Set_field [1] (VSlice (Some [[]])) (Set_field [0] (VSlice (Some [''x''])) sA))))"
    by (simp add: ck flA getter_defs Let_def)
  have a6: "assignOptString [(''tag'', [5])] (Set_field [3] (VOptInt (Some 3))
          (Set_field [2] (VMap (Some [''a'' \<mapsto> ''1'']))
          (Set_field [1] (VSlice (Some [[]])) (Set_field [0] (VSlice (Some [''x''])) sA))))
      = (Nil_error, Set_field [5] (VOptString (Some ''v2'')) (Set_field [3] (VOptInt (Some 3))
          (Set_field [2] (VMap (Some [''a'' \<mapsto> ''1'']))
          (Set_field [1] (VSlice (Some [[]])) (Set_field [0] (VSlice (Some [''x''])) sA)))))"
    by (simp add: ck flA getter_defs Let_def)
  have hA: "h \<lparr>flags = [''args'' \<mapsto> \<lparr>Shorthand = [], Usage = [], ValueType = TyStringArray,
                  DefValue = VSlice None, Value = Own (VSlice (Some [''x''])), Changed = True,
                  FlagScope = Persistent\<rparr>,
                ''tags'' \<mapsto> \<lparr>Shorthand = [], Usage = [], ValueType = TyStringSlice,
                  DefValue = VSlice None, Value = Own (VSlice (Some [])), Changed = True,
                  FlagScope = Persistent\<rparr>,
                ''label'' \<mapsto> \<lparr>Shorthand = [], Usage = [], ValueType = TyStringSlice,
                  DefValue = VSlice None, Value = Own (VSlice (Some [''a=1''])), Changed = True,
                  FlagScope = Persistent\<rparr>,
                ''count'' \<mapsto> \<lparr>Shorthand = [], Usage = [], ValueType = TyInt,
                  DefValue = VInt 0, Value = Own (VInt 3), Changed = True,
                  FlagScope = Persistent\<rparr>,
                ''force'' \<mapsto> \<lparr>Shorthand = [], Usage = [], ValueType = TyBool,
                  DefValue = VBool False, Value = Own (VBool False), Changed = False,
                  FlagScope = Persistent\<rparr>,
                ''tag'' \<mapsto> \<lparr>Shorthand = [], Usage = [], ValueType = TyString,
                  DefValue = VString ''v1'', Value = Own (VString ''v1''), Changed = False,
                  FlagScope = Persistent\<rparr>],
       store = all_fields (VBool False), environ = no_env(''MY_TAG'' := ''v2''),
       pshort = no_short, porder = [], lflags = no_lflags, lshort = no_short\<rparr>
      = (Nil_error, Set_field [9] (VBool True) (Set_field [5] (VOptString (Some ''v2''))
          (Set_field [3] (VOptInt (Some 3)) (Set_field [2] (VMap (Some [''a'' \<mapsto> ''1'']))
          (Set_field [1] (VSlice (Some [[]])) (Set_field [0] (VSlice (Some [''x''])) sA))))))"
    unfolding run sA_def[symmetric] Let_def
    by (simp only: a1 a2 a3 a4 a5 a6 fst_conv snd_conv simp_thms if_False)
  define sB where "sB = foldl (\<lambda>s cb. cb s)
       \<lparr>flags = [''args'' \<mapsto> \<lparr>Shorthand = [], Usage = [], ValueType = TyStringArray,
                  DefValue = VSlice None, Value = Own (VSlice (Some [''x''])), Changed = True,
                  FlagScope = Persistent\<rparr>,
                ''count'' \<mapsto> \<lparr>Shorthand = [], Usage = [], ValueType = TyString,
                  DefValue = VString [], Value = Own (VString []), Changed = True,
                  FlagScope = Persistent\<rparr>,
                ''tag'' \<mapsto> \<lparr>Shorthand = [], Usage = [], ValueType = TyString,
                  DefValue = VString ''v1'', Value = Own (VString ''v1''), Changed = False,
                  FlagScope = Persistent\<rparr>],
       store = all_fields (VBool False), environ = no_env(''MY_TAG'' := ''v2''),
       pshort = no_short, porder = [], lflags = no_lflags, lshort = no_short\<rparr> [?cb]"
  have flB: "flags sB ''args'' = Some \<lparr>Shorthand = [], Usage = [], ValueType = TyStringArray,
                  DefValue = VSlice None, Value = Own (VSlice (Some [''x''])), Changed = True,
                  FlagScope = Persistent\<rparr>"
      "flags sB ''tags'' = None"
    and stoB: "store sB = all_fields (VBool False)"
    unfolding sB_def
    by (simp_all add: envCallback_def FlagSet_GetString_def Lookup_def FlagSet_Set_def
          put_flag_def flag_value_def no_env_def Let_def)
  have b1: "assignArrays [(''args'', [0])] sB = (Nil_error, Set_field [0] (VSlice (Some [''x''])) sB)"
    by (simp add: ck flB getter_defs Let_def)
  have b2: "assignSlices [(''tags'', [1])] (Set_field [0] (VSlice (Some [''x''])) sB)
      = (Error (FlagNotDefined ''tags''), Set_field [0] (VSlice (Some [''x''])) sB)"
    by (simp add: ck flB getter_defs Let_def)
  have hB: "h \<lparr>flags = [''args'' \<mapsto> \<lparr>Shorthand = [], Usage = [], ValueType = TyStringArray,
                  DefValue = VSlice None, Value = Own (VSlice (Some [''x''])), Changed = True,
                  FlagScope = Persistent\<rparr>,
                ''count'' \<mapsto> \<lparr>Shorthand = [], Usage = [], ValueType = TyString,
                  DefValue = VString [], Value = Own (VString []), Changed = True,
                  FlagScope = Persistent\<rparr>,
                ''tag'' \<mapsto> \<lparr>Shorthand = [], Usage = [], ValueType = TyString,
                  DefValue = VString ''v1'', Value = Own (VString ''v1''), Changed = False,
                  FlagScope = Persistent\<rparr>],
       store = all_fields (VBool False), environ = no_env(''MY_TAG'' := ''v2''),
       pshort = no_short, porder = [], lflags = no_lflags, lshort = no_short\<rparr>
      = (Error (FlagNotDefined ''tags''), Set_field [0] (VSlice (Some [''x''])) sB)"
    unfolding run sB_def[symmetric] Let_def
    by (simp only: b1 b2 fst_conv snd_conv) simp
  show ?thesis
    using h by (intro exI[of _ h]) (simp add: hA hB stoA stoB all_fields_def)
qed

text \<open>
  Claim C10. When a write-back step returns a retrieval error, the hook returns with the
  state that step left: the flags, the environment and every field outside the failing
  step's own map are as the earlier steps of the invocation left them. Nothing the earlier
  steps have assigned is rolled back.
\<close>

theorem error_keeps_earlier_writes:
  assumes "bind (Some next) arrs slcs mps oInt oBool oString evs = Some h"
    and "s0 = run_envs evs st"
    and "r1 = assignArrays arrs s0"
    and "r2 = assignSlices slcs (snd r1)"
    and "r3 = assignMaps mps (snd r2)"
    and "r4 = assignOptInt oInt (snd r3)"
    and "r5 = assignOptBool oBool (snd r4)"
    and "r6 = assignOptString oString (snd r5)"
  shows "(fst r1 = Error e \<longrightarrow> h st = r1 \<and> frame arrs s0 (snd r1))
     \<and> (fst r1 = Nil_error \<and> fst r2 = Error e \<longrightarrow> h st = r2 \<and> frame slcs (snd r1) (snd r2))
     \<and> (fst r1 = Nil_error \<and> fst r2 = Nil_error \<and> fst r3 = Error e \<longrightarrow>
          h st = r3 \<and> frame mps (snd r2) (snd r3))
     \<and> (fst r1 = Nil_error \<and> fst r2 = Nil_error \<and> fst r3 = Nil_error \<and> fst r4 = Error e \<longrightarrow>
          h st = r4 \<and> frame oInt (snd r3) (snd r4))
     \<and> (fst r1 = Nil_error \<and> fst r2 = Nil_error \<and> fst r3 = Nil_error \<and> fst r4 = Nil_error
          \<and> fst r5 = Error e \<longrightarrow> h st = r5 \<and> frame oBool (snd r4) (snd r5))
     \<and> (fst r1 = Nil_error \<and> fst r2 = Nil_error \<and> fst r3 = Nil_error \<and> fst r4 = Nil_error
          \<and> fst r5 = Nil_error \<and> fst r6 = Error e \<longrightarrow>
          h st = r6 \<and> frame oString (snd r5) (snd r6))"
  using bind_Some[OF assms(1), of st]
  unfolding assms(2-8)
  by (simp add: Let_def run_envs_foldl assignArrays_frame assignSlices_frame assignMaps_frame
       assignOptInt_frame assignOptBool_frame assignOptString_frame)


theorem error_keeps_earlier_writes_witness:
  "\<exists>h. bind (Some (Pair Nil_error)) [(''args'', [0])] [(''tags'', [1])] [] [] [] [] [] = Some h
     \<and> fst (h \<lparr>flags = [''args'' \<mapsto> \<lparr>Shorthand = [], Usage = [], ValueType = TyStringArray,
                  DefValue = VSlice None, Value = Own (VSlice (Some [''x''])), Changed = True,
                  FlagScope = Persistent\<rparr>],
           store = all_fields (VSlice None), environ = no_env,
           pshort = no_short, porder = [], lflags = no_lflags, lshort = no_short\<rparr>) = Error (FlagNotDefined ''tags'')
     \<and> store (snd (h \<lparr>flags = [''args'' \<mapsto> \<lparr>Shorthand = [], Usage = [], ValueType = TyStringArray,
                  DefValue = VSlice None, Value = Own (VSlice (Some [''x''])), Changed = True,
                  FlagScope = Persistent\<rparr>],
           store = all_fields (VSlice None), environ = no_env,
           pshort = no_short, porder = [], lflags = no_lflags, lshort = no_short\<rparr>)) [0] = VSlice (Some [''x''])"
proof -
  let ?st = "\<lparr>flags = [''args'' \<mapsto> \<lparr>Shorthand = [], Usage = [], ValueType = TyStringArray,
                  DefValue = VSlice None, Value = Own (VSlice (Some [''x''])), Changed = True,
                  FlagScope = Persistent\<rparr>],
           store = all_fields (VSlice None), environ = no_env,
           pshort = no_short, porder = [], lflags = no_lflags, lshort = no_short\<rparr>"
  let ?r1 = "assignArrays [(''args'', [0])] (run_envs [] ?st)"
  let ?r2 = "assignSlices [(''tags'', [1])] (snd ?r1)"
  have ck: "contextKey ''args'' = ''args''" "contextKey ''tags'' = ''tags''"
    by (simp_all add: contextKey_def)
  obtain h where h: "bind (Some (Pair Nil_error)) [(''args'', [0])] [(''tags'', [1])] [] [] [] [] []
      = Some h"
    by (simp add: bind_def)
  have r1: "fst ?r1 = Nil_error" "store (snd ?r1) [0] = VSlice (Some [''x''])"
    by (simp_all add: ck getter_defs)
  have r2: "fst ?r2 = Error (FlagNotDefined ''tags'')"
    by (simp add: ck getter_defs)
  from error_keeps_earlier_writes[OF h refl refl refl refl refl refl refl,
      where e = "FlagNotDefined ''tags''" and st = ?st] r1(1) r2
  have "h ?st = ?r2" "frame [(''tags'', [1])] (snd ?r1) (snd ?r2)"
    by blast+
  then have "fst (h ?st) = Error (FlagNotDefined ''tags'')"
      "store (snd (h ?st)) [0] = store (snd ?r1) [0]"
    using r2 by (simp_all add: frame_def)
  with h r1(2) show ?thesis by auto
qed




section \<open>The claim about the environment overlay\<close>

lemmas New_field_defs = New_field_def skipped_def register_def name_def Tag_Get_def Atoi_def
  is_digit_def digit_val_def is_ascii_def Let_def char_case_defs AddFlag_def

text \<open>
  Claim C4: for a descriptor with fallback variables the overlay checks each of the
  declared names, and a name with a non-empty value forces a string flag that holds the
  empty string or its default. The registrar appends one closure for each declared name,
  so it sets out to do that; but the closures share the loop variable, and every closure of
  a field reads the name declared last. Here the string field \<^verbatim>\<open>TagName\<close> declares
  \<^verbatim>\<open>env:"MY_TAG,ALT_TAG"\<close> and \<^verbatim>\<open>default:"v1"\<close>, \<^verbatim>\<open>MY_TAG\<close> is set to \<^verbatim>\<open>v2\<close>,
  \<^verbatim>\<open>ALT_TAG\<close> is not set and no flag was passed: both closures read \<^verbatim>\<open>ALT_TAG\<close>,
  and after the overlay the field still holds \<^verbatim>\<open>v1\<close>. A closure on \<^verbatim>\<open>MY_TAG\<close>, as
  the claim has it, gives \<^verbatim>\<open>v2\<close>.
\<close>

theorem env_overlay_reads_last_name_only:
  "New_field
     \<lparr>FieldType = SField ''TagName'' False TString
                    [(''env'', ''MY_TAG,ALT_TAG''), (''default'', ''v1'')] [],
      FieldValue = [0]\<rparr>
     \<lparr>cmd = \<lparr>flags = no_flags, store = all_fields (VString []),
             environ = no_env(''MY_TAG'' := ''v2''),
             pshort = no_short, porder = [], lflags = no_lflags, lshort = no_short\<rparr>,
      envs = [], arrays = [], slices = [], maps = [], optString = [], optBool = [], optInt = []\<rparr>
   = Some
     \<lparr>cmd = \<lparr>flags = no_flags(''tag-name'' \<mapsto>
                \<lparr>Shorthand = [], Usage = [], ValueType = TyString, DefValue = VString ''v1'',
                 Value = Bound [0], Changed = False, FlagScope = Persistent\<rparr>),
             store = (all_fields (VString []))([0] := VString ''v1''),
             environ = no_env(''MY_TAG'' := ''v2''),
             pshort = no_short, porder = [''tag-name''], lflags = no_lflags,
             lshort = no_short\<rparr>,
      envs = [envCallback Persistent ''ALT_TAG'' ''tag-name'' ''v1'',
              envCallback Persistent ''ALT_TAG'' ''tag-name'' ''v1''],
      arrays = [], slices = [], maps = [], optString = [], optBool = [], optInt = []\<rparr>
   \<and> store (run_envs [envCallback Persistent ''ALT_TAG'' ''tag-name'' ''v1'',
                       envCallback Persistent ''ALT_TAG'' ''tag-name'' ''v1'']
        \<lparr>flags = no_flags(''tag-name'' \<mapsto>
                \<lparr>Shorthand = [], Usage = [], ValueType = TyString, DefValue = VString ''v1'',
                 Value = Bound [0], Changed = False, FlagScope = Persistent\<rparr>),
         store = (all_fields (VString []))([0] := VString ''v1''),
         environ = no_env(''MY_TAG'' := ''v2''),
         pshort = no_short, porder = [''tag-name''], lflags = no_lflags,
         lshort = no_short\<rparr>) [0] = VString ''v1''
   \<and> store (run_envs [envCallback Persistent ''MY_TAG'' ''tag-name'' ''v1'']
        \<lparr>flags = no_flags(''tag-name'' \<mapsto>
                \<lparr>Shorthand = [], Usage = [], ValueType = TyString, DefValue = VString ''v1'',
                 Value = Bound [0], Changed = False, FlagScope = Persistent\<rparr>),
         store = (all_fields (VString []))([0] := VString ''v1''),
         environ = no_env(''MY_TAG'' := ''v2''),
         pshort = no_short, porder = [''tag-name''], lflags = no_lflags,
         lshort = no_short\<rparr>) [0] = VString ''v2''"
  by (simp add: New_field_defs register_defs example_defs envCallback_def
        FlagSet_GetString_def Lookup_def FlagSet_Set_def put_flag_def flag_value_def)

section \<open>The claims about the extractor and the registrar\<close>













lemma LocalFlags_add_keeps:
  "LocalFlags_add ns st = Some st' \<Longrightarrow>
     flags st' = flags st \<and> store st' = store st \<and> environ st' = environ st"
  by (induction ns st rule: LocalFlags_add.induct)
     (auto simp: Let_def split: option.splits list.splits if_splits)

lemma LocalFlags_keeps:
  "LocalFlags st = Some st' \<Longrightarrow>
     flags st' = flags st \<and> store st' = store st \<and> environ st' = environ st"
  unfolding LocalFlags_def by (rule LocalFlags_add_keeps)

lemma AddFlag_Some:
  "AddFlag sc nm f st = Some st' \<Longrightarrow>
     Lookup sc st' nm = Some f \<and> store st' = store st \<and> environ st' = environ st"
  by (cases sc)
     (auto simp: AddFlag_def Lookup_def Let_def split: if_splits list.splits)

lemma AddFlag_Persistent_ok:
  "flags st nm = None \<Longrightarrow> Shorthand f = [] \<or> (\<exists>c. Shorthand f = [c] \<and> pshort st c = None) \<Longrightarrow>
     AddFlag Persistent nm f st \<noteq> None"
  by (auto simp: AddFlag_def Let_def split: list.splits)

lemma AddFlag_Local_ok:
  "lflags st nm = None \<Longrightarrow> Shorthand f = [] \<or> (\<exists>c. Shorthand f = [c] \<and> lshort st c = None) \<Longrightarrow>
     AddFlag Local nm f st \<noteq> None"
  by (auto simp: AddFlag_def Let_def split: list.splits)

lemma AddFlag_panics:
  "(sc = Persistent \<and> flags st nm \<noteq> None) \<or> (sc = Local \<and> lflags st nm \<noteq> None)
     \<or> length (Shorthand f) > 1 \<Longrightarrow> AddFlag sc nm f st = None"
  by (cases sc) (auto simp: AddFlag_def Let_def split: list.splits)

lemma New_field_unfold:
  assumes "\<not> skipped ft"
    and "name (Name ft) (Tag_Get (Tag ft) ''name'') (Tag_Get (Tag ft) ''short'') = (nm, alias)"
  shows "New_field \<lparr>FieldType = ft, FieldValue = v\<rparr> b =
     (case (case (if Tag_Get (Tag ft) ''local'' = ''true'' then Local else Persistent) of
              Persistent \<Rightarrow> Some (cmd b) | Local \<Rightarrow> LocalFlags (cmd b)) of
        None \<Rightarrow> None
      | Some c \<Rightarrow>
          (case register ft v (if Tag_Get (Tag ft) ''local'' = ''true'' then Local else Persistent)
                  nm alias (Tag_Get (Tag ft) ''default'')
                  (case Atoi (Tag_Get (Tag ft) ''default'') of None \<Rightarrow> 0 | Some n \<Rightarrow> n)
                  (Tag_Get (Tag ft) ''usage'') (b\<lparr>cmd := c\<rparr>) of
             None \<Rightarrow> None
           | Some b1 \<Rightarrow>
               Some (b1\<lparr>envs := envs b1 @
                 (case (if length (Split (Tag_Get (Tag ft) ''env'') CHR '','') = 1
                          \<and> Split (Tag_Get (Tag ft) ''env'') CHR '','' ! 0 = []
                        then [] else Split (Tag_Get (Tag ft) ''env'') CHR '','') of
                    [] \<Rightarrow> []
                  | x # xs \<Rightarrow> replicate (length (x # xs))
                      (envCallback (if Tag_Get (Tag ft) ''local'' = ''true'' then Local else Persistent)
                         (last (x # xs)) nm (Tag_Get (Tag ft) ''default'')))\<rparr>)))"
  using assms by (simp add: New_field_def Let_def cong: option.case_cong list.case_cong)

lemma New_field_optInt_cmd:
  assumes "\<not> skipped ft"
    and "name (Name ft) (Tag_Get (Tag ft) ''name'') (Tag_Get (Tag ft) ''short'') = (nm, sh)"
    and "sc = (if Tag_Get (Tag ft) ''local'' = ''true'' then Local else Persistent)"
    and "d = Tag_Get (Tag ft) ''default''"
    and "u = Tag_Get (Tag ft) ''usage''"
    and "Type ft = TPointer TInt"
  shows "map_option cmd (New_field \<lparr>FieldType = ft, FieldValue = v\<rparr> b) =
     (case (case sc of Persistent \<Rightarrow> Some (cmd b) | Local \<Rightarrow> LocalFlags (cmd b)) of
        None \<Rightarrow> None
      | Some c \<Rightarrow> AddFlag sc nm
             \<lparr>Shorthand = sh, Usage = u, ValueType = TyInt,
              DefValue = VInt (case Atoi d of None \<Rightarrow> 0 | Some n \<Rightarrow> n),
              Value = Own (VInt (case Atoi d of None \<Rightarrow> 0 | Some n \<Rightarrow> n)),
              Changed = False, FlagScope = sc\<rparr> c)"
  unfolding New_field_unfold[OF assms(1,2)] assms(3-5)
  by (simp add: register_def IntP_def assms(6) split: option.splits)

lemma New_field_optString_cmd:
  assumes "\<not> skipped ft"
    and "name (Name ft) (Tag_Get (Tag ft) ''name'') (Tag_Get (Tag ft) ''short'') = (nm, sh)"
    and "sc = (if Tag_Get (Tag ft) ''local'' = ''true'' then Local else Persistent)"
    and "d = Tag_Get (Tag ft) ''default''"
    and "u = Tag_Get (Tag ft) ''usage''"
    and "Type ft = TPointer TString"
  shows "map_option cmd (New_field \<lparr>FieldType = ft, FieldValue = v\<rparr> b) =
     (case (case sc of Persistent \<Rightarrow> Some (cmd b) | Local \<Rightarrow> LocalFlags (cmd b)) of
        None \<Rightarrow> None
      | Some c \<Rightarrow> AddFlag sc nm
             \<lparr>Shorthand = sh, Usage = u, ValueType = TyString,
              DefValue = VString d,
              Value = Own (VString d),
              Changed = False, FlagScope = sc\<rparr> c)"
  unfolding New_field_unfold[OF assms(1,2)] assms(3-5)
  by (simp add: register_def StringP_def assms(6) split: option.splits)

lemma New_field_optBool_cmd:
  assumes "\<not> skipped ft"
    and "name (Name ft) (Tag_Get (Tag ft) ''name'') (Tag_Get (Tag ft) ''short'') = (nm, sh)"
    and "sc = (if Tag_Get (Tag ft) ''local'' = ''true'' then Local else Persistent)"
    and "d = Tag_Get (Tag ft) ''default''"
    and "u = Tag_Get (Tag ft) ''usage''"
    and "Type ft = TPointer TBool"
  shows "map_option cmd (New_field \<lparr>FieldType = ft, FieldValue = v\<rparr> b) =
     (case (case sc of Persistent \<Rightarrow> Some (cmd b) | Local \<Rightarrow> LocalFlags (cmd b)) of
        None \<Rightarrow> None
      | Some c \<Rightarrow> AddFlag sc nm
             \<lparr>Shorthand = sh, Usage = u, ValueType = TyBool,
              DefValue = VBool False,
              Value = Own (VBool False),
              Changed = False, FlagScope = sc\<rparr> c)"
  unfolding New_field_unfold[OF assms(1,2)] assms(3-5)
  by (simp add: register_def BoolP_def assms(6) split: option.splits)

lemma registered_flag:
  assumes "map_option cmd r =
     (case (case sc of Persistent \<Rightarrow> Some (cmd b) | Local \<Rightarrow> LocalFlags (cmd b)) of
        None \<Rightarrow> None
      | Some c \<Rightarrow> AddFlag sc nm f c)"
  shows "r = Some b' \<Longrightarrow> Lookup sc (cmd b') nm = Some f \<and> store (cmd b') = store (cmd b)"
    and "sc = Persistent \<Longrightarrow> flags (cmd b) nm = None \<Longrightarrow>
         Shorthand f = [] \<or> (\<exists>c. Shorthand f = [c] \<and> pshort (cmd b) c = None) \<Longrightarrow> r \<noteq> None"
    and "sc = Local \<Longrightarrow> LocalFlags (cmd b) = Some cl \<Longrightarrow> lflags cl nm = None \<Longrightarrow>
         Shorthand f = [] \<or> (\<exists>c. Shorthand f = [c] \<and> lshort cl c = None) \<Longrightarrow> r \<noteq> None"
    and "length (Shorthand f) > 1 \<or> (sc = Persistent \<and> flags (cmd b) nm \<noteq> None) \<Longrightarrow> r = None"
proof -
  show "Lookup sc (cmd b') nm = Some f \<and> store (cmd b') = store (cmd b)" if "r = Some b'"
  proof (cases sc)
    case Persistent
    with assms that have "AddFlag sc nm f (cmd b) = Some (cmd b')" by simp
    then show ?thesis using AddFlag_Some by blast
  next
    case Local
    with assms that obtain c where c: "LocalFlags (cmd b) = Some c"
        "AddFlag sc nm f c = Some (cmd b')"
      by (auto split: option.splits)
    from AddFlag_Some[OF c(2)] LocalFlags_keeps[OF c(1)] show ?thesis by simp
  qed
  show "r \<noteq> None" if "sc = Persistent" "flags (cmd b) nm = None"
      "Shorthand f = [] \<or> (\<exists>c. Shorthand f = [c] \<and> pshort (cmd b) c = None)"
    using assms that AddFlag_Persistent_ok[of "cmd b" nm f] by auto
  show "r \<noteq> None" if "sc = Local" "LocalFlags (cmd b) = Some cl" "lflags cl nm = None"
      "Shorthand f = [] \<or> (\<exists>c. Shorthand f = [c] \<and> lshort cl c = None)"
    using assms that AddFlag_Local_ok[of cl nm f] by auto
  show "r = None" if "length (Shorthand f) > 1 \<or> (sc = Persistent \<and> flags (cmd b) nm \<noteq> None)"
  proof -
    have "AddFlag sc nm f c = None" if "sc = Local \<or> c = cmd b" for c
      using \<open>length (Shorthand f) > 1 \<or> (sc = Persistent \<and> flags (cmd b) nm \<noteq> None)\<close> that
      by (intro AddFlag_panics) auto
    then show ?thesis using assms by (cases sc) (auto split: option.splits)
  qed
qed

text \<open>
  Claim C7, as the specification states it: an optional-boolean field registers a boolean
  flag whose default is the declared default literal. It does not: the field
  \<^verbatim>\<open>Force *bool\<close> with \<^verbatim>\<open>default:"true"\<close> registers a flag whose default is
  \<^verbatim>\<open>false\<close>.
\<close>

theorem optional_bool_default_ignored:
  "New_field
     \<lparr>FieldType = SField ''Force'' False (TPointer TBool) [(''default'', ''true'')] [],
      FieldValue = [0]\<rparr>
     \<lparr>cmd = \<lparr>flags = no_flags, store = all_fields (VOptBool None), environ = no_env,
             pshort = no_short, porder = [], lflags = no_lflags, lshort = no_short\<rparr>,
      envs = [], arrays = [], slices = [], maps = [], optString = [], optBool = [], optInt = []\<rparr>
   = Some
     \<lparr>cmd = \<lparr>flags = no_flags(''force'' \<mapsto>
                 \<lparr>Shorthand = [], Usage = [], ValueType = TyBool, DefValue = VBool False,
                  Value = Own (VBool False), Changed = False, FlagScope = Persistent\<rparr>),
              store = all_fields (VOptBool None), environ = no_env,
              pshort = no_short, porder = [''force''], lflags = no_lflags, lshort = no_short\<rparr>,
      envs = [], arrays = [], slices = [], maps = [], optString = [],
      optBool = [(''force'', [0])], optInt = []\<rparr>"
  by (simp add: New_field_defs register_defs no_flags_def)

text \<open>
  Claim C7, amended. Take a field of optional kind that the loop does not skip, with its
  resolved flag name \<open>nm\<close>, shorthand \<open>sh\<close>, flag set \<open>sc\<close>, default literal \<open>d\<close>
  and help text \<open>u\<close>. Whenever the registrar returns, the chosen flag set holds under
  \<open>nm\<close> an unchanged scalar flag of the corresponding primitive kind with storage of its
  own, and the record is untouched: for an optional integer the default is \<open>d\<close> read as
  a decimal integer, zero when it cannot be read; for an optional string it is \<open>d\<close>;
  for an optional boolean it is \<^verbatim>\<open>false\<close> whatever \<open>d\<close> is. The registrar returns when
  the flag set does not hold the name and the shorthand is empty or one byte that the set
  does not use (for the local set, after \<^verbatim>\<open>LocalFlags\<close> has returned); it panics on a
  shorthand of more than one byte and on a name the persistent set already holds.
\<close>

theorem optional_flag_registration:
  assumes "\<not> skipped ft"
    and "name (Name ft) (Tag_Get (Tag ft) ''name'') (Tag_Get (Tag ft) ''short'') = (nm, sh)"
    and "sc = (if Tag_Get (Tag ft) ''local'' = ''true'' then Local else Persistent)"
    and "d = Tag_Get (Tag ft) ''default''"
    and "u = Tag_Get (Tag ft) ''usage''"
  shows
   "(Type ft = TPointer TInt \<and> New_field \<lparr>FieldType = ft, FieldValue = v\<rparr> b = Some b' \<longrightarrow>
       Lookup sc (cmd b') nm
         = Some \<lparr>Shorthand = sh, Usage = u, ValueType = TyInt,
              DefValue = VInt (case Atoi d of None \<Rightarrow> 0 | Some n \<Rightarrow> n),
              Value = Own (VInt (case Atoi d of None \<Rightarrow> 0 | Some n \<Rightarrow> n)),
              Changed = False, FlagScope = sc\<rparr>
       \<and> store (cmd b') = store (cmd b))
    \<and> (Type ft = TPointer TString \<and> New_field \<lparr>FieldType = ft, FieldValue = v\<rparr> b = Some b' \<longrightarrow>
       Lookup sc (cmd b') nm
         = Some \<lparr>Shorthand = sh, Usage = u, ValueType = TyString,
              DefValue = VString d,
              Value = Own (VString d),
              Changed = False, FlagScope = sc\<rparr>
       \<and> store (cmd b') = store (cmd b))
    \<and> (Type ft = TPointer TBool \<and> New_field \<lparr>FieldType = ft, FieldValue = v\<rparr> b = Some b' \<longrightarrow>
       Lookup sc (cmd b') nm
         = Some \<lparr>Shorthand = sh, Usage = u, ValueType = TyBool,
              DefValue = VBool False,
              Value = Own (VBool False),
              Changed = False, FlagScope = sc\<rparr>
       \<and> store (cmd b') = store (cmd b))
    \<and> ((Type ft = TPointer TInt \<or> Type ft = TPointer TString \<or> Type ft = TPointer TBool) \<and> sc = Persistent \<and> flags (cmd b) nm = None
         \<and> (sh = [] \<or> (\<exists>c. sh = [c] \<and> pshort (cmd b) c = None)) \<longrightarrow>
       New_field \<lparr>FieldType = ft, FieldValue = v\<rparr> b \<noteq> None)
    \<and> ((Type ft = TPointer TInt \<or> Type ft = TPointer TString \<or> Type ft = TPointer TBool) \<and> sc = Local \<and> LocalFlags (cmd b) = Some cl \<and> lflags cl nm = None
         \<and> (sh = [] \<or> (\<exists>c. sh = [c] \<and> lshort cl c = None)) \<longrightarrow>
       New_field \<lparr>FieldType = ft, FieldValue = v\<rparr> b \<noteq> None)
    \<and> ((Type ft = TPointer TInt \<or> Type ft = TPointer TString \<or> Type ft = TPointer TBool) \<and> (length sh > 1 \<or> (sc = Persistent \<and> flags (cmd b) nm \<noteq> None)) \<longrightarrow>
       New_field \<lparr>FieldType = ft, FieldValue = v\<rparr> b = None)"
proof -
  note I = registered_flag[OF New_field_optInt_cmd[OF assms, of v b]]
  note S = registered_flag[OF New_field_optString_cmd[OF assms, of v b]]
  note B = registered_flag[OF New_field_optBool_cmd[OF assms, of v b]]
  have 1: "(Type ft = TPointer TInt \<and> New_field \<lparr>FieldType = ft, FieldValue = v\<rparr> b = Some b' \<longrightarrow>
       Lookup sc (cmd b') nm
         = Some \<lparr>Shorthand = sh, Usage = u, ValueType = TyInt,
              DefValue = VInt (case Atoi d of None \<Rightarrow> 0 | Some n \<Rightarrow> n),
              Value = Own (VInt (case Atoi d of None \<Rightarrow> 0 | Some n \<Rightarrow> n)),
              Changed = False, FlagScope = sc\<rparr>
       \<and> store (cmd b') = store (cmd b))"
    using I(1) by simp
  have 2: "(Type ft = TPointer TString \<and> New_field \<lparr>FieldType = ft, FieldValue = v\<rparr> b = Some b' \<longrightarrow>
       Lookup sc (cmd b') nm
         = Some \<lparr>Shorthand = sh, Usage = u, ValueType = TyString,
              DefValue = VString d,
              Value = Own (VString d),
              Changed = False, FlagScope = sc\<rparr>
       \<and> store (cmd b') = store (cmd b))"
    using S(1) by simp
  have 3: "(Type ft = TPointer TBool \<and> New_field \<lparr>FieldType = ft, FieldValue = v\<rparr> b = Some b' \<longrightarrow>
       Lookup sc (cmd b') nm
         = Some \<lparr>Shorthand = sh, Usage = u, ValueType = TyBool,
              DefValue = VBool False,
              Value = Own (VBool False),
              Changed = False, FlagScope = sc\<rparr>
       \<and> store (cmd b') = store (cmd b))"
    using B(1) by simp
  have 4: "(Type ft = TPointer TInt \<or> Type ft = TPointer TString \<or> Type ft = TPointer TBool) \<and> sc = Persistent \<and> flags (cmd b) nm = None
         \<and> (sh = [] \<or> (\<exists>c. sh = [c] \<and> pshort (cmd b) c = None)) \<longrightarrow>
       New_field \<lparr>FieldType = ft, FieldValue = v\<rparr> b \<noteq> None"
    using I(2) S(2) B(2) by auto
  have 5: "(Type ft = TPointer TInt \<or> Type ft = TPointer TString \<or> Type ft = TPointer TBool) \<and> sc = Local \<and> LocalFlags (cmd b) = Some cl \<and> lflags cl nm = None
         \<and> (sh = [] \<or> (\<exists>c. sh = [c] \<and> lshort cl c = None)) \<longrightarrow>
       New_field \<lparr>FieldType = ft, FieldValue = v\<rparr> b \<noteq> None"
    using I(3)[of cl] S(3)[of cl] B(3)[of cl] by auto
  have 6: "(Type ft = TPointer TInt \<or> Type ft = TPointer TString \<or> Type ft = TPointer TBool) \<and> (length sh > 1 \<or> (sc = Persistent \<and> flags (cmd b) nm \<noteq> None)) \<longrightarrow>
       New_field \<lparr>FieldType = ft, FieldValue = v\<rparr> b = None"
    using I(4) S(4) B(4) by auto
  from 1 2 3 4 5 6 show ?thesis by blast
qed

theorem optional_flag_registration_witness:
  "(\<exists>b'. New_field \<lparr>FieldType = SField ''Count'' False (TPointer TInt) [(''default'', ''12'')] [],
                       FieldValue = [0]\<rparr>
       \<lparr>cmd = \<lparr>flags = no_flags, store = all_fields (VOptInt None), environ = no_env,
               pshort = no_short, porder = [], lflags = no_lflags, lshort = no_short\<rparr>,
        envs = [], arrays = [], slices = [], maps = [], optString = [], optBool = [],
        optInt = []\<rparr> = Some b'
      \<and> Lookup Persistent (cmd b') ''count''
          = Some \<lparr>Shorthand = [], Usage = [], ValueType = TyInt, DefValue = VInt 12,
                 Value = Own (VInt 12), Changed = False, FlagScope = Persistent\<rparr>
      \<and> store (cmd b') = all_fields (VOptInt None))
   \<and> (\<exists>b'. New_field \<lparr>FieldType = SField ''Depth'' False (TPointer TInt) [(''default'', ''many'')] [],
                       FieldValue = [0]\<rparr>
       \<lparr>cmd = \<lparr>flags = no_flags, store = all_fields (VOptInt None), environ = no_env,
               pshort = no_short, porder = [], lflags = no_lflags, lshort = no_short\<rparr>,
        envs = [], arrays = [], slices = [], maps = [], optString = [], optBool = [],
        optInt = []\<rparr> = Some b'
      \<and> Lookup Persistent (cmd b') ''depth''
          = Some \<lparr>Shorthand = [], Usage = [], ValueType = TyInt, DefValue = VInt 0,
                 Value = Own (VInt 0), Changed = False, FlagScope = Persistent\<rparr>
      \<and> store (cmd b') = all_fields (VOptInt None))
   \<and> (\<exists>b'. New_field \<lparr>FieldType = SField ''Tag'' False (TPointer TString) [(''default'', ''v1''), (''short'', ''t'')] [],
                       FieldValue = [0]\<rparr>
       \<lparr>cmd = \<lparr>flags = no_flags, store = all_fields (VOptInt None), environ = no_env,
               pshort = no_short, porder = [], lflags = no_lflags, lshort = no_short\<rparr>,
        envs = [], arrays = [], slices = [], maps = [], optString = [], optBool = [],
        optInt = []\<rparr> = Some b'
      \<and> Lookup Persistent (cmd b') ''tag''
          = Some \<lparr>Shorthand = ''t'', Usage = [], ValueType = TyString, DefValue = VString ''v1'',
                 Value = Own (VString ''v1''), Changed = False, FlagScope = Persistent\<rparr>
      \<and> store (cmd b') = all_fields (VOptInt None))
   \<and> (\<exists>b'. New_field \<lparr>FieldType = SField ''Force'' False (TPointer TBool) [(''default'', ''true''), (''local'', ''true'')] [],
                       FieldValue = [0]\<rparr>
       \<lparr>cmd = \<lparr>flags = no_flags, store = all_fields (VOptInt None), environ = no_env,
               pshort = no_short, porder = [], lflags = no_lflags, lshort = no_short\<rparr>,
        envs = [], arrays = [], slices = [], maps = [], optString = [], optBool = [],
        optInt = []\<rparr> = Some b'
      \<and> Lookup Local (cmd b') ''force''
          = Some \<lparr>Shorthand = [], Usage = [], ValueType = TyBool, DefValue = VBool False,
                 Value = Own (VBool False), Changed = False, FlagScope = Local\<rparr>
      \<and> store (cmd b') = all_fields (VOptInt None))
   \<and> New_field \<lparr>FieldType = SField ''Max_Count'' False (TPointer TInt) [] [], FieldValue = [0]\<rparr>
       \<lparr>cmd = \<lparr>flags = no_flags, store = all_fields (VOptInt None), environ = no_env,
               pshort = no_short, porder = [], lflags = no_lflags, lshort = no_short\<rparr>,
        envs = [], arrays = [], slices = [], maps = [], optString = [], optBool = [],
        optInt = []\<rparr> = None"
proof -
  have 1: "(\<exists>b'. New_field \<lparr>FieldType = SField ''Count'' False (TPointer TInt) [(''default'', ''12'')] [],
                       FieldValue = [0]\<rparr>
       \<lparr>cmd = \<lparr>flags = no_flags, store = all_fields (VOptInt None), environ = no_env,
               pshort = no_short, porder = [], lflags = no_lflags, lshort = no_short\<rparr>,
        envs = [], arrays = [], slices = [], maps = [], optString = [], optBool = [],
        optInt = []\<rparr> = Some b'
      \<and> Lookup Persistent (cmd b') ''count''
          = Some \<lparr>Shorthand = [], Usage = [], ValueType = TyInt, DefValue = VInt 12,
                 Value = Own (VInt 12), Changed = False, FlagScope = Persistent\<rparr>
      \<and> store (cmd b') = all_fields (VOptInt None))"
  proof -
    note T = optional_flag_registration[where ft = "SField ''Count'' False (TPointer TInt) [(''default'', ''12'')] []"
        and nm = "''count''" and sh = "[]" and sc = Persistent and d = "''12''" and u = "[]" and v = "[0]"
        and b = "\<lparr>cmd = \<lparr>flags = no_flags, store = all_fields (VOptInt None), environ = no_env,
               pshort = no_short, porder = [], lflags = no_lflags, lshort = no_short\<rparr>,
        envs = [], arrays = [], slices = [], maps = [], optString = [], optBool = [],
        optInt = []\<rparr>"]
    have pre: "\<not> skipped (SField ''Count'' False (TPointer TInt) [(''default'', ''12'')] [])"
        "name (Name (SField ''Count'' False (TPointer TInt) [(''default'', ''12'')] [])) (Tag_Get (Tag (SField ''Count'' False (TPointer TInt) [(''default'', ''12'')] [])) ''name'') (Tag_Get (Tag (SField ''Count'' False (TPointer TInt) [(''default'', ''12'')] [])) ''short'') = (''count'', [])"
        "Persistent = (if Tag_Get (Tag (SField ''Count'' False (TPointer TInt) [(''default'', ''12'')] [])) ''local'' = ''true'' then Local else Persistent)"
        "''12'' = Tag_Get (Tag (SField ''Count'' False (TPointer TInt) [(''default'', ''12'')] [])) ''default''"
        "[] = Tag_Get (Tag (SField ''Count'' False (TPointer TInt) [(''default'', ''12'')] [])) ''usage''"
      by (simp_all add: skipped_def name_def Tag_Get_def Atoi_def is_digit_def digit_val_def is_ascii_def Let_def
        char_case_defs example_defs LocalFlags_def)
    from T[OF pre, THEN conjunct2, THEN conjunct2, THEN conjunct2, THEN conjunct1]
    obtain b' where b': "New_field \<lparr>FieldType = SField ''Count'' False (TPointer TInt) [(''default'', ''12'')] [],
                       FieldValue = [0]\<rparr>
       \<lparr>cmd = \<lparr>flags = no_flags, store = all_fields (VOptInt None), environ = no_env,
               pshort = no_short, porder = [], lflags = no_lflags, lshort = no_short\<rparr>,
        envs = [], arrays = [], slices = [], maps = [], optString = [], optBool = [],
        optInt = []\<rparr> = Some b'"
      by (auto simp: example_defs LocalFlags_def)
    from T[OF pre, where b' = b', THEN conjunct1] b'
    show ?thesis by (auto simp: Atoi_def is_digit_def digit_val_def)
  qed
  have 2: "(\<exists>b'. New_field \<lparr>FieldType = SField ''Depth'' False (TPointer TInt) [(''default'', ''many'')] [],
                       FieldValue = [0]\<rparr>
       \<lparr>cmd = \<lparr>flags = no_flags, store = all_fields (VOptInt None), environ = no_env,
               pshort = no_short, porder = [], lflags = no_lflags, lshort = no_short\<rparr>,
        envs = [], arrays = [], slices = [], maps = [], optString = [], optBool = [],
        optInt = []\<rparr> = Some b'
      \<and> Lookup Persistent (cmd b') ''depth''
          = Some \<lparr>Shorthand = [], Usage = [], ValueType = TyInt, DefValue = VInt 0,
                 Value = Own (VInt 0), Changed = False, FlagScope = Persistent\<rparr>
      \<and> store (cmd b') = all_fields (VOptInt None))"
  proof -
    note T = optional_flag_registration[where ft = "SField ''Depth'' False (TPointer TInt) [(''default'', ''many'')] []"
        and nm = "''depth''" and sh = "[]" and sc = Persistent and d = "''many''" and u = "[]" and v = "[0]"
        and b = "\<lparr>cmd = \<lparr>flags = no_flags, store = all_fields (VOptInt None), environ = no_env,
               pshort = no_short, porder = [], lflags = no_lflags, lshort = no_short\<rparr>,
        envs = [], arrays = [], slices = [], maps = [], optString = [], optBool = [],
        optInt = []\<rparr>"]
    have pre: "\<not> skipped (SField ''Depth'' False (TPointer TInt) [(''default'', ''many'')] [])"
        "name (Name (SField ''Depth'' False (TPointer TInt) [(''default'', ''many'')] [])) (Tag_Get (Tag (SField ''Depth'' False (TPointer TInt) [(''default'', ''many'')] [])) ''name'') (Tag_Get (Tag (SField ''Depth'' False (TPointer TInt) [(''default'', ''many'')] [])) ''short'') = (''depth'', [])"
        "Persistent = (if Tag_Get (Tag (SField ''Depth'' False (TPointer TInt) [(''default'', ''many'')] [])) ''local'' = ''true'' then Local else Persistent)"
        "''many'' = Tag_Get (Tag (SField ''Depth'' False (TPointer TInt) [(''default'', ''many'')] [])) ''default''"
        "[] = Tag_Get (Tag (SField ''Depth'' False (TPointer TInt) [(''default'', ''many'')] [])) ''usage''"
      by (simp_all add: skipped_def name_def Tag_Get_def Atoi_def is_digit_def digit_val_def is_ascii_def Let_def
        char_case_defs example_defs LocalFlags_def)
    from T[OF pre, THEN conjunct2, THEN conjunct2, THEN conjunct2, THEN conjunct1]
    obtain b' where b': "New_field \<lparr>FieldType = SField ''Depth'' False (TPointer TInt) [(''default'', ''many'')] [],
                       FieldValue = [0]\<rparr>
       \<lparr>cmd = \<lparr>flags = no_flags, store = all_fields (VOptInt None), environ = no_env,
               pshort = no_short, porder = [], lflags = no_lflags, lshort = no_short\<rparr>,
        envs = [], arrays = [], slices = [], maps = [], optString = [], optBool = [],
        optInt = []\<rparr> = Some b'"
      by (auto simp: example_defs LocalFlags_def)
    from T[OF pre, where b' = b', THEN conjunct1] b'
    show ?thesis by (auto simp: Atoi_def is_digit_def digit_val_def)
  qed
  have 3: "(\<exists>b'. New_field \<lparr>FieldType = SField ''Tag'' False (TPointer TString) [(''default'', ''v1''), (''short'', ''t'')] [],
                       FieldValue = [0]\<rparr>
       \<lparr>cmd = \<lparr>flags = no_flags, store = all_fields (VOptInt None), environ = no_env,
               pshort = no_short, porder = [], lflags = no_lflags, lshort = no_short\<rparr>,
        envs = [], arrays = [], slices = [], maps = [], optString = [], optBool = [],
        optInt = []\<rparr> = Some b'
      \<and> Lookup Persistent (cmd b') ''tag''
          = Some \<lparr>Shorthand = ''t'', Usage = [], ValueType = TyString, DefValue = VString ''v1'',
                 Value = Own (VString ''v1''), Changed = False, FlagScope = Persistent\<rparr>
      \<and> store (cmd b') = all_fields (VOptInt None))"
  proof -
    note T = optional_flag_registration[where ft = "SField ''Tag'' False (TPointer TString) [(''default'', ''v1''), (''short'', ''t'')] []"
        and nm = "''tag''" and sh = "''t''" and sc = Persistent and d = "''v1''" and u = "[]" and v = "[0]"
        and b = "\<lparr>cmd = \<lparr>flags = no_flags, store = all_fields (VOptInt None), environ = no_env,
               pshort = no_short, porder = [], lflags = no_lflags, lshort = no_short\<rparr>,
        envs = [], arrays = [], slices = [], maps = [], optString = [], optBool = [],
        optInt = []\<rparr>"]
    have pre: "\<not> skipped (SField ''Tag'' False (TPointer TString) [(''default'', ''v1''), (''short'', ''t'')] [])"
        "name (Name (SField ''Tag'' False (TPointer TString) [(''default'', ''v1''), (''short'', ''t'')] [])) (Tag_Get (Tag (SField ''Tag'' False (TPointer TString) [(''default'', ''v1''), (''short'', ''t'')] [])) ''name'') (Tag_Get (Tag (SField ''Tag'' False (TPointer TString) [(''default'', ''v1''), (''short'', ''t'')] [])) ''short'') = (''tag'', ''t'')"
        "Persistent = (if Tag_Get (Tag (SField ''Tag'' False (TPointer TString) [(''default'', ''v1''), (''short'', ''t'')] [])) ''local'' = ''true'' then Local else Persistent)"
        "''v1'' = Tag_Get (Tag (SField ''Tag'' False (TPointer TString) [(''default'', ''v1''), (''short'', ''t'')] [])) ''default''"
        "[] = Tag_Get (Tag (SField ''Tag'' False (TPointer TString) [(''default'', ''v1''), (''short'', ''t'')] [])) ''usage''"
      by (simp_all add: skipped_def name_def Tag_Get_def Atoi_def is_digit_def digit_val_def is_ascii_def Let_def
        char_case_defs example_defs LocalFlags_def)
    from T[OF pre, THEN conjunct2, THEN conjunct2, THEN conjunct2, THEN conjunct1]
    obtain b' where b': "New_field \<lparr>FieldType = SField ''Tag'' False (TPointer TString) [(''default'', ''v1''), (''short'', ''t'')] [],
                       FieldValue = [0]\<rparr>
       \<lparr>cmd = \<lparr>flags = no_flags, store = all_fields (VOptInt None), environ = no_env,
               pshort = no_short, porder = [], lflags = no_lflags, lshort = no_short\<rparr>,
        envs = [], arrays = [], slices = [], maps = [], optString = [], optBool = [],
        optInt = []\<rparr> = Some b'"
      by (auto simp: example_defs LocalFlags_def)
    from T[OF pre, where b' = b', THEN conjunct2, THEN conjunct1] b'
    show ?thesis by (auto simp: Atoi_def is_digit_def digit_val_def)
  qed
  have 4: "(\<exists>b'. New_field \<lparr>FieldType = SField ''Force'' False (TPointer TBool) [(''default'', ''true''), (''local'', ''true'')] [],
                       FieldValue = [0]\<rparr>
       \<lparr>cmd = \<lparr>flags = no_flags, store = all_fields (VOptInt None), environ = no_env,
               pshort = no_short, porder = [], lflags = no_lflags, lshort = no_short\<rparr>,
        envs = [], arrays = [], slices = [], maps = [], optString = [], optBool = [],
        optInt = []\<rparr> = Some b'
      \<and> Lookup Local (cmd b') ''force''
          = Some \<lparr>Shorthand = [], Usage = [], ValueType = TyBool, DefValue = VBool False,
                 Value = Own (VBool False), Changed = False, FlagScope = Local\<rparr>
      \<and> store (cmd b') = all_fields (VOptInt None))"
  proof -
    note T = optional_flag_registration[where ft = "SField ''Force'' False (TPointer TBool) [(''default'', ''true''), (''local'', ''true'')] []"
        and nm = "''force''" and sh = "[]" and sc = Local and d = "''true''" and u = "[]" and v = "[0]"
        and b = "\<lparr>cmd = \<lparr>flags = no_flags, store = all_fields (VOptInt None), environ = no_env,
               pshort = no_short, porder = [], lflags = no_lflags, lshort = no_short\<rparr>,
        envs = [], arrays = [], slices = [], maps = [], optString = [], optBool = [],
        optInt = []\<rparr>" and cl = "cmd \<lparr>cmd = \<lparr>flags = no_flags, store = all_fields (VOptInt None), environ = no_env,
               pshort = no_short, porder = [], lflags = no_lflags, lshort = no_short\<rparr>,
        envs = [], arrays = [], slices = [], maps = [], optString = [], optBool = [],
        optInt = []\<rparr>"]
    have pre: "\<not> skipped (SField ''Force'' False (TPointer TBool) [(''default'', ''true''), (''local'', ''true'')] [])"
        "name (Name (SField ''Force'' False (TPointer TBool) [(''default'', ''true''), (''local'', ''true'')] [])) (Tag_Get (Tag (SField ''Force'' False (TPointer TBool) [(''default'', ''true''), (''local'', ''true'')] [])) ''name'') (Tag_Get (Tag (SField ''Force'' False (TPointer TBool) [(''default'', ''true''), (''local'', ''true'')] [])) ''short'') = (''force'', [])"
        "Local = (if Tag_Get (Tag (SField ''Force'' False (TPointer TBool) [(''default'', ''true''), (''local'', ''true'')] [])) ''local'' = ''true'' then Local else Persistent)"
        "''true'' = Tag_Get (Tag (SField ''Force'' False (TPointer TBool) [(''default'', ''true''), (''local'', ''true'')] [])) ''default''"
        "[] = Tag_Get (Tag (SField ''Force'' False (TPointer TBool) [(''default'', ''true''), (''local'', ''true'')] [])) ''usage''"
      by (simp_all add: skipped_def name_def Tag_Get_def Atoi_def is_digit_def digit_val_def is_ascii_def Let_def
        char_case_defs example_defs LocalFlags_def)
    from T[OF pre, THEN conjunct2, THEN conjunct2, THEN conjunct2, THEN conjunct2, THEN conjunct1]
    obtain b' where b': "New_field \<lparr>FieldType = SField ''Force'' False (TPointer TBool) [(''default'', ''true''), (''local'', ''true'')] [],
                       FieldValue = [0]\<rparr>
       \<lparr>cmd = \<lparr>flags = no_flags, store = all_fields (VOptInt None), environ = no_env,
               pshort = no_short, porder = [], lflags = no_lflags, lshort = no_short\<rparr>,
        envs = [], arrays = [], slices = [], maps = [], optString = [], optBool = [],
        optInt = []\<rparr> = Some b'"
      by (auto simp: example_defs LocalFlags_def)
    from T[OF pre, where b' = b', THEN conjunct2, THEN conjunct2, THEN conjunct1] b'
    show ?thesis by (auto simp: Atoi_def is_digit_def digit_val_def)
  qed
  have 5: "New_field \<lparr>FieldType = SField ''Max_Count'' False (TPointer TInt) [] [], FieldValue = [0]\<rparr>
       \<lparr>cmd = \<lparr>flags = no_flags, store = all_fields (VOptInt None), environ = no_env,
               pshort = no_short, porder = [], lflags = no_lflags, lshort = no_short\<rparr>,
        envs = [], arrays = [], slices = [], maps = [], optString = [], optBool = [],
        optInt = []\<rparr> = None"
  proof -
    note T = optional_flag_registration[where ft = "SField ''Max_Count'' False (TPointer TInt) [] []"
        and nm = "''count''" and sh = "''max''" and sc = Persistent and d = "[]" and u = "[]"
        and v = "[0]" and b = "\<lparr>cmd = \<lparr>flags = no_flags, store = all_fields (VOptInt None), environ = no_env,
               pshort = no_short, porder = [], lflags = no_lflags, lshort = no_short\<rparr>,
        envs = [], arrays = [], slices = [], maps = [], optString = [], optBool = [],
        optInt = []\<rparr>"]
    have pre: "\<not> skipped (SField ''Max_Count'' False (TPointer TInt) [] [])"
        "name (Name (SField ''Max_Count'' False (TPointer TInt) [] [])) (Tag_Get (Tag (SField ''Max_Count'' False (TPointer TInt) [] [])) ''name'') (Tag_Get (Tag (SField ''Max_Count'' False (TPointer TInt) [] [])) ''short'') = (''count'', ''max'')"
        "Persistent = (if Tag_Get (Tag (SField ''Max_Count'' False (TPointer TInt) [] [])) ''local'' = ''true'' then Local else Persistent)"
        "[] = Tag_Get (Tag (SField ''Max_Count'' False (TPointer TInt) [] [])) ''default''"
        "[] = Tag_Get (Tag (SField ''Max_Count'' False (TPointer TInt) [] [])) ''usage''"
      by (simp_all add: skipped_def name_def Tag_Get_def Atoi_def is_digit_def digit_val_def is_ascii_def Let_def
        char_case_defs example_defs LocalFlags_def)
    from T[OF pre, THEN conjunct2, THEN conjunct2, THEN conjunct2, THEN conjunct2, THEN conjunct2]
    show ?thesis by simp
  qed
  from 1 2 3 4 5 show ?thesis by blast
qed


text \<open>
  Claim C8 asks that a field whose kind is outside the supported set makes command
  construction fail. The code does so for a kind that its outer switch does not name;
  for a pointer to a kind that its inner switch does not name (here \<^verbatim>\<open>*float64\<close>) it
  registers nothing, does not panic and returns the command.
\<close>

theorem pointer_to_unsupported_kind_accepted:
  "fields [] 0 [SField ''Ratio'' False (TPointer (TOther ''float64'')) [] []]
    = Some [\<lparr>FieldType = SField ''Ratio'' False (TPointer (TOther ''float64'')) [] [],
             FieldValue = [0]\<rparr>]
   \<and> New_fields [\<lparr>FieldType = SField ''Ratio'' False (TPointer (TOther ''float64'')) [] [],
                   FieldValue = [0]\<rparr>]
      \<lparr>cmd = \<lparr>flags = no_flags, store = all_fields (VOptInt None), environ = no_env,
              pshort = no_short, porder = [], lflags = no_lflags, lshort = no_short\<rparr>,
       envs = [], arrays = [], slices = [], maps = [], optString = [], optBool = [], optInt = []\<rparr>
    = Some
      \<lparr>cmd = \<lparr>flags = no_flags, store = all_fields (VOptInt None), environ = no_env,
              pshort = no_short, porder = [], lflags = no_lflags, lshort = no_short\<rparr>,
       envs = [], arrays = [], slices = [], maps = [], optString = [], optBool = [], optInt = []\<rparr>
   \<and> New [SField ''Ratio'' False (TPointer (TOther ''float64'')) [] []] (Pair Nil_error) None None
        \<lparr>flags = no_flags, store = all_fields (VOptInt None), environ = no_env,
         pshort = no_short, porder = [], lflags = no_lflags, lshort = no_short\<rparr> \<noteq> None
   \<and> New [SField ''Ratio'' False (TOther ''float64'') [] []] (Pair Nil_error) None None
        \<lparr>flags = no_flags, store = all_fields (VOptInt None), environ = no_env,
         pshort = no_short, porder = [], lflags = no_lflags, lshort = no_short\<rparr> = None"
  by (simp add: New_def New_field_defs)



end
